theory Spec2Isabelle
  imports Complex_Main
begin

section \<open>JavaScript numbers\<close>

text \<open>
  A JavaScript number is modelled as a real number or one of the three special values
  of IEEE 754 arithmetic. Finite arithmetic is exact (no rounding), zero is unsigned and
  behaves as \<open>+0\<close>, and the special values follow the IEEE rules: \<open>0/0\<close> is \<open>NaN\<close>,
  \<open>x/0\<close> is an infinity for \<open>x \<noteq> 0\<close>, every comparison with \<open>NaN\<close> is false, and
  \<open>Math.min\<close>/\<open>Math.max\<close> return \<open>NaN\<close> as soon as one argument is \<open>NaN\<close>.
\<close>

datatype jsnum = Num real | PosInf | NegInf | NaN

fun jadd :: "jsnum \<Rightarrow> jsnum \<Rightarrow> jsnum" where
  "jadd (Num a) (Num b) = Num (a + b)"
| "jadd NaN _ = NaN"
| "jadd _ NaN = NaN"
| "jadd PosInf NegInf = NaN"
| "jadd NegInf PosInf = NaN"
| "jadd PosInf _ = PosInf"
| "jadd _ PosInf = PosInf"
| "jadd NegInf _ = NegInf"
| "jadd _ NegInf = NegInf"

fun jneg :: "jsnum \<Rightarrow> jsnum" where
  "jneg (Num a) = Num (- a)"
| "jneg PosInf = NegInf"
| "jneg NegInf = PosInf"
| "jneg NaN = NaN"

definition jsub :: "jsnum \<Rightarrow> jsnum \<Rightarrow> jsnum" where
  "jsub a b = jadd a (jneg b)"

fun jmul :: "jsnum \<Rightarrow> jsnum \<Rightarrow> jsnum" where
  "jmul (Num a) (Num b) = Num (a * b)"
| "jmul NaN _ = NaN"
| "jmul _ NaN = NaN"
| "jmul PosInf (Num b) = (if b = 0 then NaN else if 0 < b then PosInf else NegInf)"
| "jmul NegInf (Num b) = (if b = 0 then NaN else if 0 < b then NegInf else PosInf)"
| "jmul (Num a) PosInf = (if a = 0 then NaN else if 0 < a then PosInf else NegInf)"
| "jmul (Num a) NegInf = (if a = 0 then NaN else if 0 < a then NegInf else PosInf)"
| "jmul PosInf PosInf = PosInf"
| "jmul PosInf NegInf = NegInf"
| "jmul NegInf PosInf = NegInf"
| "jmul NegInf NegInf = PosInf"

fun jdiv :: "jsnum \<Rightarrow> jsnum \<Rightarrow> jsnum" where
  "jdiv (Num a) (Num b) =
     (if b \<noteq> 0 then Num (a / b)
      else if a = 0 then NaN
      else if 0 < a then PosInf else NegInf)"
| "jdiv NaN _ = NaN"
| "jdiv _ NaN = NaN"
| "jdiv (Num a) PosInf = Num 0"
| "jdiv (Num a) NegInf = Num 0"
| "jdiv PosInf (Num b) = (if 0 \<le> b then PosInf else NegInf)"
| "jdiv NegInf (Num b) = (if 0 \<le> b then NegInf else PosInf)"
| "jdiv PosInf PosInf = NaN"
| "jdiv PosInf NegInf = NaN"
| "jdiv NegInf PosInf = NaN"
| "jdiv NegInf NegInf = NaN"

text \<open>\<open>Math.pow(x, 2)\<close>, \<open>Math.sqrt\<close>, \<open>Math.abs\<close>, \<open>Math.floor\<close> and \<open>Math.round\<close>.\<close>

definition jpow2 :: "jsnum \<Rightarrow> jsnum" where
  "jpow2 x = jmul x x"

fun jsqrt :: "jsnum \<Rightarrow> jsnum" where
  "jsqrt (Num a) = (if 0 \<le> a then Num (sqrt a) else NaN)"
| "jsqrt PosInf = PosInf"
| "jsqrt NegInf = NaN"
| "jsqrt NaN = NaN"

fun jabs :: "jsnum \<Rightarrow> jsnum" where
  "jabs (Num a) = Num \<bar>a\<bar>"
| "jabs PosInf = PosInf"
| "jabs NegInf = PosInf"
| "jabs NaN = NaN"

fun jfloor :: "jsnum \<Rightarrow> jsnum" where
  "jfloor (Num a) = Num (of_int \<lfloor>a\<rfloor>)"
| "jfloor x = x"

fun jround :: "jsnum \<Rightarrow> jsnum" where
  "jround (Num a) = Num (of_int \<lfloor>a + 1 / 2\<rfloor>)"
| "jround x = x"

text \<open>The relational operators \<open><\<close>, \<open><=\<close>, \<open>>\<close>, \<open>>=\<close> and strict equality \<open>===\<close>.\<close>

fun jlt :: "jsnum \<Rightarrow> jsnum \<Rightarrow> bool" where
  "jlt (Num a) (Num b) = (a < b)"
| "jlt NaN _ = False"
| "jlt _ NaN = False"
| "jlt PosInf _ = False"
| "jlt _ NegInf = False"
| "jlt NegInf _ = True"
| "jlt _ PosInf = True"

definition jeq :: "jsnum \<Rightarrow> jsnum \<Rightarrow> bool" where
  "jeq a b = (a \<noteq> NaN \<and> a = b)"

definition jle :: "jsnum \<Rightarrow> jsnum \<Rightarrow> bool" where
  "jle a b = (jlt a b \<or> jeq a b)"

definition jgt :: "jsnum \<Rightarrow> jsnum \<Rightarrow> bool" where
  "jgt a b = jlt b a"

definition jge :: "jsnum \<Rightarrow> jsnum \<Rightarrow> bool" where
  "jge a b = jle b a"

text \<open>\<open>Math.min(a, b)\<close> and \<open>Math.max(a, b)\<close>; the spread forms \<open>Math.min(...xs)\<close> and
  \<open>Math.max(...xs)\<close> start from \<open>Infinity\<close> and \<open>-Infinity\<close>.\<close>

definition jmin2 :: "jsnum \<Rightarrow> jsnum \<Rightarrow> jsnum" where
  "jmin2 a b = (if a = NaN \<or> b = NaN then NaN else if jlt b a then b else a)"

definition jmax2 :: "jsnum \<Rightarrow> jsnum \<Rightarrow> jsnum" where
  "jmax2 a b = (if a = NaN \<or> b = NaN then NaN else if jlt a b then b else a)"

definition Math_min :: "jsnum list \<Rightarrow> jsnum" where
  "Math_min xs = foldl jmin2 PosInf xs"

definition Math_max :: "jsnum list \<Rightarrow> jsnum" where
  "Math_max xs = foldl jmax2 NegInf xs"

text \<open>A number is falsy when it is zero or \<open>NaN\<close>.\<close>

definition truthy :: "jsnum \<Rightarrow> bool" where
  "truthy x = (x \<noteq> Num 0 \<and> x \<noteq> NaN)"

text \<open>\<open>xs.reduce((a, b) => a + b, 0)\<close>.\<close>

definition jsum :: "jsnum list \<Rightarrow> jsnum" where
  "jsum xs = foldl jadd (Num 0) xs"

text \<open>The loop \<open>for (i = 1; i < xs.length; i++) out.push(f(xs[i - 1], xs[i]))\<close>.\<close>

definition adjacent :: "('a \<Rightarrow> 'a \<Rightarrow> 'b) \<Rightarrow> 'a list \<Rightarrow> 'b list" where
  "adjacent f xs = map (\<lambda>(a, b). f a b) (zip xs (tl xs))"

section \<open>Submitted data\<close>

text \<open>One pressure sample of a submission, with the fields of the request schema.\<close>

record pressure_sample =
  timestamp :: jsnum
  pressure :: jsnum
  weight :: "jsnum option"
  deltaTime :: "jsnum option"
  touchArea :: "jsnum option"
  position :: "(jsnum \<times> jsnum) option"

section \<open>The single-series analyzer (utils/humanPatternAnalyzer.js)\<close>

record thresholds =
  minVariance :: jsnum
  minSamples :: int
  confidenceThreshold :: jsnum
  maxPressure :: jsnum
  minPressure :: jsnum

text \<open>The constructor's values when no environment variable overrides them.\<close>

definition default_thresholds :: thresholds where
  "default_thresholds =
     \<lparr>minVariance = Num 0.15, minSamples = 50, confidenceThreshold = Num 0.8,
      maxPressure = Num 100, minPressure = Num 0.5\<rparr>"

record statistics =
  mean :: jsnum
  variance :: jsnum
  standardDeviation :: jsnum
  smin :: jsnum
  smax :: jsnum
  srange :: jsnum
  coefficientOfVariation :: jsnum

definition calculateStatistics :: "jsnum list \<Rightarrow> statistics" where
  "calculateStatistics pressures =
     (let n = Num (real (length pressures));
          mean = jdiv (jsum pressures) n;
          variance = jdiv (foldl (\<lambda>sum p. jadd sum (jpow2 (jsub p mean))) (Num 0) pressures) n;
          stdDev = jsqrt variance;
          mn = Math_min pressures;
          mx = Math_max pressures
      in \<lparr>mean = mean, variance = variance, standardDeviation = stdDev,
          smin = mn, smax = mx, srange = jsub mx mn,
          coefficientOfVariation = jdiv stdDev mean\<rparr>)"

definition analyzeVariance :: "jsnum list \<Rightarrow> jsnum" where
  "analyzeVariance pressures =
     (let cv = coefficientOfVariation (calculateStatistics pressures)
      in if jlt cv (Num 0.05) then Num 0.2
         else if jgt cv (Num 0.5) then Num 0.3
         else if jge cv (Num 0.1) \<and> jle cv (Num 0.3) then Num 0.9
         else Num 0.6)"

definition analyzeTimingPatterns :: "jsnum list \<Rightarrow> jsnum" where
  "analyzeTimingPatterns timestamps =
     (if length timestamps < 2 then Num 0.5
      else let intervals = adjacent (\<lambda>prev cur. jsub cur prev) timestamps;
               cv = coefficientOfVariation (calculateStatistics intervals)
           in if jlt cv (Num 0.1) then Num 0.2
              else if jgt cv (Num 1.0) then Num 0.3
              else jmin2 (Num 0.9) (jmul cv (Num 2)))"

text \<open>The index-based regression: \<open>x\<close> is \<open>[0, 1, ..., n - 1]\<close>, and the reducers that
  read \<open>values[i]\<close> or \<open>x[i]\<close> walk both arrays in step.\<close>

definition checkLinearity :: "jsnum list \<Rightarrow> jsnum" where
  "checkLinearity vals =
     (let n = Num (real (length vals));
          x = map (\<lambda>i. Num (real i)) [0..<length vals];
          xSum = jsum x;
          ySum = jsum vals;
          xySum = foldl (\<lambda>sum (xv, v). jadd sum (jmul xv v)) (Num 0) (zip x vals);
          x2Sum = foldl (\<lambda>sum xv. jadd sum (jmul xv xv)) (Num 0) x;
          slope = jdiv (jsub (jmul n xySum) (jmul xSum ySum))
                       (jsub (jmul n x2Sum) (jmul xSum xSum));
          intercept = jdiv (jsub ySum (jmul slope xSum)) n;
          yMean = jdiv ySum n;
          ssRes = foldl (\<lambda>sum (v, xv).
                    jadd sum (jpow2 (jsub v (jadd (jmul slope xv) intercept))))
                    (Num 0) (zip vals x);
          ssTot = foldl (\<lambda>sum v. jadd sum (jpow2 (jsub v yMean))) (Num 0) vals
      in jsub (Num 1) (jdiv ssRes ssTot))"

text \<open>\<open>new Set(pressures).size\<close> counts the distinct values (\<open>NaN\<close> counts once).\<close>

definition analyzeNaturalness :: "jsnum list \<Rightarrow> jsnum" where
  "analyzeNaturalness pressures =
     (let naturalScore = Num 1.0;
          uniqueRatio = jdiv (Num (real (length (remdups pressures))))
                             (Num (real (length pressures)));
          naturalScore = (if jlt uniqueRatio (Num 0.7) then jmul naturalScore (Num 0.5)
                          else naturalScore);
          linearityScore = checkLinearity pressures;
          naturalScore = (if jgt linearityScore (Num 0.9) then jmul naturalScore (Num 0.4)
                          else naturalScore)
      in jmax2 (Num 0.1) naturalScore)"

definition analyzePressureRange :: "thresholds \<Rightarrow> jsnum list \<Rightarrow> jsnum" where
  "analyzePressureRange th pressures =
     (let mn = Math_min pressures; mx = Math_max pressures
      in if jlt mn (minPressure th) \<or> jgt mx (maxPressure th) then Num 0.3 else Num 0.8)"

text \<open>Tap detection: the loop keeps the open tap, if any, and the finished taps.
  \<open>inTap\<close> is true exactly while an open tap is kept.\<close>

record tap_start =
  startTime :: jsnum
  startPressure :: jsnum
  tmaxPressure :: jsnum
  maxTime :: jsnum

record tap = tap_start +
  endTime :: jsnum
  duration :: jsnum

definition pressureThreshold :: jsnum where
  "pressureThreshold = Num 2.0"

definition detectTaps_step ::
  "tap_start option \<times> tap list \<Rightarrow> pressure_sample \<Rightarrow> tap_start option \<times> tap list" where
  "detectTaps_step st sample =
     (case st of
        (None, taps) \<Rightarrow>
          if jgt (pressure sample) pressureThreshold
          then (Some \<lparr>startTime = timestamp sample, startPressure = pressure sample,
                      tmaxPressure = pressure sample, maxTime = timestamp sample\<rparr>, taps)
          else (None, taps)
      | (Some tapStart, taps) \<Rightarrow>
          if jgt (pressure sample) (tmaxPressure tapStart)
          then (Some (tapStart\<lparr>tmaxPressure := pressure sample, maxTime := timestamp sample\<rparr>),
                taps)
          else if jle (pressure sample) pressureThreshold
          then (None,
                taps @ [tap_start.extend tapStart
                          \<lparr>endTime = timestamp sample,
                           duration = jsub (timestamp sample) (startTime tapStart)\<rparr>])
          else (Some tapStart, taps))"

definition detectTaps :: "pressure_sample list \<Rightarrow> tap list" where
  "detectTaps pressureData = snd (foldl detectTaps_step (None, []) pressureData)"

definition tapIntervals :: "tap list \<Rightarrow> jsnum list" where
  "tapIntervals taps = adjacent (\<lambda>prev cur. jsub (startTime cur) (startTime prev)) taps"

definition analyzeRhythm :: "tap list \<Rightarrow> jsnum" where
  "analyzeRhythm taps =
     (if length taps < 2 then Num 0.5
      else let cv = coefficientOfVariation (calculateStatistics (tapIntervals taps))
           in if jgt cv (Num 0.1) \<and> jlt cv (Num 0.5) then Num 0.8 else Num 0.4)"

definition analyzeHumanTiming :: "tap list \<Rightarrow> jsnum" where
  "analyzeHumanTiming taps =
     (let intervals = tapIntervals taps
      in if length intervals < 2 then Num 0.5
         else let cv = coefficientOfVariation (calculateStatistics intervals)
              in if jge cv (Num 0.15) \<and> jle cv (Num 0.4) then Num 0.9 else Num 0.4)"

definition analyzeStability :: "jsnum list \<Rightarrow> jsnum" where
  "analyzeStability pressures =
     (let cv = coefficientOfVariation (calculateStatistics pressures)
      in if jlt cv (Num 0.05) then Num 0.3
         else if jgt cv (Num 0.3) then Num 0.4
         else Num 0.8)"

definition analyzeMovement :: "pressure_sample list \<Rightarrow> jsnum" where
  "analyzeMovement pressureData =
     (let positions = List.map_filter position pressureData
      in if positions = [] then Num 0.6
         else let distances =
                    adjacent (\<lambda>(px, py) (cx, cy).
                      let dx = jsub cx px; dy = jsub cy py
                      in jsqrt (jadd (jmul dx dx) (jmul dy dy))) positions
              in if jgt (coefficientOfVariation (calculateStatistics distances)) (Num 0.2)
                 then Num 0.8 else Num 0.5)"

definition analyzeFluctuations :: "jsnum list \<Rightarrow> jsnum" where
  "analyzeFluctuations pressures =
     (let fluctuations = adjacent (\<lambda>prev cur. jabs (jsub cur prev)) pressures;
          m = mean (calculateStatistics fluctuations)
      in if jgt m (Num 0.1) \<and> jlt m (Num 2.0) then Num 0.8 else Num 0.4)"

text \<open>\<open>slice(0, k)\<close> and \<open>slice(-k)\<close> with \<open>k = floor(length / 4)\<close>; \<open>slice(-0)\<close> is the
  whole array.\<close>

definition analyzeProgression :: "jsnum list \<Rightarrow> jsnum" where
  "analyzeProgression pressures =
     (let k = length pressures div 4;
          firstQuarter = take k pressures;
          lastQuarter = (if k = 0 then pressures else drop (length pressures - k) pressures);
          firstAvg = jdiv (jsum firstQuarter) (Num (real (length firstQuarter)));
          lastAvg = jdiv (jsum lastQuarter) (Num (real (length lastQuarter)));
          ratio = jdiv lastAvg firstAvg
      in if jge ratio (Num 2.0) then Num 0.9
         else if jge ratio (Num 1.5) then Num 0.6 else Num 0.3)"

definition analyzeProgressionSmoothness :: "jsnum list \<Rightarrow> jsnum" where
  "analyzeProgressionSmoothness pressures =
     (let rates = adjacent (\<lambda>prev cur. jsub cur prev) pressures;
          positiveRates = length (filter (\<lambda>r. jgt r (Num 0)) rates);
          smoothnessRatio = jdiv (Num (real positiveRates)) (Num (real (length rates)))
      in if jge smoothnessRatio (Num 0.7) then Num 0.8 else Num 0.4)"

text \<open>\<open>pressures[pressures.length - 1]\<close> of an empty array is \<open>undefined\<close>, which
  arithmetic turns into \<open>NaN\<close>.\<close>

definition analyzeFinalPressure :: "jsnum list \<Rightarrow> jsnum" where
  "analyzeFinalPressure pressures =
     (let maxP = Math_max pressures;
          finalPressure = (if pressures = [] then NaN else last pressures);
          ratio = jdiv finalPressure maxP
      in if jge ratio (Num 0.8) then Num 0.9 else Num 0.5)"

text \<open>The result of a type-specific analysis: its type tag and its named scores, in
  the order the object literal lists them. The other fields of the source's result
  repeat the scores or carry details that the confidence does not read.\<close>

record analysis_result =
  atype :: string
  scores :: "(string \<times> jsnum) list"

record challenge_info =
  ctype :: string
  cdifficulty :: string

definition analyzePressurePattern :: "thresholds \<Rightarrow> pressure_sample list \<Rightarrow> analysis_result" where
  "analyzePressurePattern th pressureData =
     (let pressures = map pressure pressureData;
          timestamps = map timestamp pressureData;
          varianceScore = analyzeVariance pressures;
          timingScore = analyzeTimingPatterns timestamps;
          naturalnessScore = analyzeNaturalness pressures;
          rangeScore = analyzePressureRange th pressures
      in \<lparr>atype = ''pressure_pattern'',
          scores = [(''variance'', varianceScore), (''timing'', timingScore),
                    (''naturalness'', naturalnessScore), (''range'', rangeScore)]\<rparr>)"

definition analyzeRhythmTest :: "pressure_sample list \<Rightarrow> analysis_result" where
  "analyzeRhythmTest pressureData =
     (let taps = detectTaps pressureData;
          rhythmScore = analyzeRhythm taps;
          humanTimingScore = analyzeHumanTiming taps
      in \<lparr>atype = ''rhythm_test'',
          scores = [(''rhythm'', rhythmScore), (''humanTiming'', humanTimingScore)]\<rparr>)"

definition analyzeSustainedPressure :: "pressure_sample list \<Rightarrow> analysis_result" where
  "analyzeSustainedPressure pressureData =
     (let pressures = map pressure pressureData;
          stabilityScore = analyzeStability pressures;
          movementScore = analyzeMovement pressureData;
          fluctuationScore = analyzeFluctuations pressures
      in \<lparr>atype = ''sustained_pressure'',
          scores = [(''stability'', stabilityScore), (''movement'', movementScore),
                    (''fluctuation'', fluctuationScore)]\<rparr>)"

definition analyzeProgressivePressure :: "pressure_sample list \<Rightarrow> analysis_result" where
  "analyzeProgressivePressure pressureData =
     (let pressures = map pressure pressureData;
          progressionScore = analyzeProgression pressures;
          smoothnessScore = analyzeProgressionSmoothness pressures;
          finalPressureScore = analyzeFinalPressure pressures
      in \<lparr>atype = ''progressive_pressure'',
          scores = [(''progression'', progressionScore), (''smoothness'', smoothnessScore),
                    (''finalPressure'', finalPressureScore)]\<rparr>)"

definition analyzeByType ::
  "thresholds \<Rightarrow> pressure_sample list \<Rightarrow> challenge_info \<Rightarrow> analysis_result" where
  "analyzeByType th pressureData challenge =
     (if ctype challenge = ''pressure_pattern'' then analyzePressurePattern th pressureData
      else if ctype challenge = ''rhythm_test'' then analyzeRhythmTest pressureData
      else if ctype challenge = ''sustained_pressure'' then analyzeSustainedPressure pressureData
      else if ctype challenge = ''progressive_pressure''
        then analyzeProgressivePressure pressureData
      else analyzePressurePattern th pressureData)"

text \<open>\<open>scores.name\<close>: a missing property is \<open>undefined\<close>, and every comparison with
  \<open>undefined\<close> is false, as with \<open>NaN\<close>.\<close>

definition score_of :: "(string \<times> jsnum) list \<Rightarrow> string \<Rightarrow> jsnum" where
  "score_of sc name = (case map_of sc name of None \<Rightarrow> NaN | Some v \<Rightarrow> v)"

definition calculateOverallConfidence :: "analysis_result \<Rightarrow> jsnum" where
  "calculateOverallConfidence analysisResult =
     (let sc = scores analysisResult;
          scoreValues = map snd sc
      in if length scoreValues = 0 then Num 0.0
         else let average = jdiv (jsum scoreValues) (Num (real (length scoreValues)));
                  adjustment =
                    (if atype analysisResult = ''pressure_pattern'' then
                       (if jgt (score_of sc ''variance'') (Num 0.7)
                           \<and> jgt (score_of sc ''naturalness'') (Num 0.6)
                        then Num 1.1 else Num 1.0)
                     else if atype analysisResult = ''rhythm_test'' then
                       (if jgt (score_of sc ''humanTiming'') (Num 0.7)
                        then Num 1.1 else Num 1.0)
                     else Num 1.0)
              in jmin2 (Num 1.0) (jmul average adjustment))"

record analyze_result =
  ar_isHuman :: bool
  ar_confidence :: jsnum
  ar_reason :: "string option"

definition analyze :: "thresholds \<Rightarrow> pressure_sample list \<Rightarrow> challenge_info \<Rightarrow> analyze_result" where
  "analyze th pressureData challenge =
     (if int (length pressureData) < minSamples th
      then \<lparr>ar_isHuman = False, ar_confidence = Num 0.0,
            ar_reason = Some ''Insufficient pressure data''\<rparr>
      else let pressures = map pressure pressureData
           in if length pressures = 0
              then \<lparr>ar_isHuman = False, ar_confidence = Num 0.0,
                    ar_reason = Some ''No valid pressure readings''\<rparr>
              else let analysisResult = analyzeByType th pressureData challenge;
                       overallConfidence = calculateOverallConfidence analysisResult
                   in \<lparr>ar_isHuman = jge overallConfidence (confidenceThreshold th),
                       ar_confidence = overallConfidence, ar_reason = None\<rparr>)"

section \<open>The multi-signal analyzer (services/humanPatternAnalyzer.js)\<close>

record motion_sample =
  mtimestamp :: jsnum
  acceleration :: "(jsnum \<times> jsnum \<times> jsnum) option"
  rotation :: "(jsnum \<times> jsnum \<times> jsnum) option"

record screen_info =
  width :: "jsnum option"
  height :: "jsnum option"
  pixelRatio :: "jsnum option"

record device_info =
  userAgent :: "string option"
  screen :: "screen_info option"
  trackpadType :: "string option"
  browserSupport :: "string list option"

text \<open>The object that \<open>submitVerification\<close> hands to the analyzer.\<close>

record verification_data =
  vd_pressureData :: "pressure_sample list"
  vd_motionData :: "motion_sample list"
  vd_deviceInfo :: device_info
  vd_detectionMethod :: string
  vd_challengeType :: string
  vd_challengeDifficulty :: string

record pattern_range =
  rmin :: jsnum
  rmax :: jsnum

record patterns =
  pressureVariance :: pattern_range
  timingIrregularity :: pattern_range
  naturalRhythm :: pattern_range

record device_profile =
  pressureMultiplier :: jsnum
  sensitivity :: jsnum
  name :: string

text \<open>The analyzer object: the tables its constructor fills in. \<open>browserPatterns\<close>
  gives the confidence boost of a detection method, \<open>deviceProfiles\<close> the calibration
  (pressure multiplier, sensitivity) of a device name.\<close>

record analyzer =
  patterns :: patterns
  browserPatterns :: "(string \<times> jsnum) list"
  deviceProfiles :: "(string \<times> jsnum \<times> jsnum) list"

definition HumanPatternAnalyzer :: analyzer where
  "HumanPatternAnalyzer =
     \<lparr>patterns =
        \<lparr>pressureVariance = \<lparr>rmin = Num 0.01, rmax = Num 0.15\<rparr>,
         timingIrregularity = \<lparr>rmin = Num 0.05, rmax = Num 0.25\<rparr>,
         naturalRhythm = \<lparr>rmin = Num 0.3, rmax = Num 0.8\<rparr>\<rparr>,
      browserPatterns =
        [(''webHID'', Num 0.1), (''forceTouch'', Num 0.08),
         (''pointerEvents'', Num 0.05), (''motionSensors'', Num 0.02)],
      deviceProfiles =
        [(''MacBook Pro 16in 2021'', Num 1.2, Num 0.95),
         (''MacBook Pro 14in 2021'', Num 1.15, Num 0.93),
         (''MacBook Air M1'', Num 1.0, Num 0.88),
         (''MacBook Air M2'', Num 1.05, Num 0.90),
         (''Surface Pro 8'', Num 0.9, Num 0.75),
         (''Surface Pro 9'', Num 0.95, Num 0.78),
         (''iPad Pro 12.9in'', Num 0.8, Num 0.70),
         (''generic'', Num 1.0, Num 0.65)]\<rparr>"

text \<open>\<open>s.includes(needle)\<close>.\<close>

fun str_includes :: "string \<Rightarrow> string \<Rightarrow> bool" where
  "str_includes [] needle = (needle = [])"
| "str_includes (c # cs) needle =
     (take (length needle) (c # cs) = needle \<or> str_includes cs needle)"

text \<open>\<open>a === b\<close>, \<open>a >= b\<close> and so on where \<open>a\<close> may be \<open>undefined\<close>: every such
  comparison with \<open>undefined\<close> is false, as with \<open>NaN\<close>.\<close>

definition opt_num :: "jsnum option \<Rightarrow> jsnum" where
  "opt_num v = (case v of None \<Rightarrow> NaN | Some x \<Rightarrow> x)"

text \<open>The device names are written with \<open>in\<close> for the inch mark of the source.\<close>

definition getDeviceProfile :: "analyzer \<Rightarrow> device_info \<Rightarrow> device_profile" where
  "getDeviceProfile this deviceInfo =
     (let ua = (case userAgent deviceInfo of None \<Rightarrow> [] | Some u \<Rightarrow> u);
          w = opt_num (case screen deviceInfo of None \<Rightarrow> None | Some sc \<Rightarrow> width sc);
          h = opt_num (case screen deviceInfo of None \<Rightarrow> None | Some sc \<Rightarrow> height sc);
          deviceName =
            (if str_includes ua ''Macintosh'' then
               (if jeq w (Num 3456) \<and> jeq h (Num 2234) then ''MacBook Pro 16in 2021''
                else if jeq w (Num 3024) \<and> jeq h (Num 1964) then ''MacBook Pro 14in 2021''
                else if jeq w (Num 2560) \<and> jeq h (Num 1600) then ''MacBook Air M1''
                else if jeq w (Num 2880) \<and> jeq h (Num 1864) then ''MacBook Air M2''
                else ''generic'')
             else if str_includes ua ''Windows'' then
               (if str_includes ua ''Surface'' then ''Surface Pro 8'' else ''generic'')
             else if str_includes ua ''iPad'' then
               (if jge w (Num 2048) then ''iPad Pro 12.9in'' else ''generic'')
             else ''generic'');
          profile = (case map_of (deviceProfiles this) deviceName of
                       Some pr \<Rightarrow> pr
                     | None \<Rightarrow> (case map_of (deviceProfiles this) ''generic'' of
                                  Some pr \<Rightarrow> pr | None \<Rightarrow> (NaN, NaN)))
      in \<lparr>pressureMultiplier = fst profile, sensitivity = snd profile, name = deviceName\<rparr>)"

definition calculateVariance :: "jsnum list \<Rightarrow> jsnum" where
  "calculateVariance vals =
     (if length vals = 0 then Num 0
      else let n = Num (real (length vals));
               mean = jdiv (jsum vals) n;
               squaredDiffs = map (\<lambda>v. jpow2 (jsub v mean)) vals
           in jdiv (jsum squaredDiffs) n)"

text \<open>The loop of \<open>calculateNaturalness\<close> visits every inner index with its two
  neighbours.\<close>

definition triples :: "'a list \<Rightarrow> ('a \<times> 'a \<times> 'a) list" where
  "triples xs = zip xs (zip (tl xs) (tl (tl xs)))"

definition calculateNaturalness :: "jsnum list \<Rightarrow> jsnum" where
  "calculateNaturalness vals =
     (if length vals < 3 then Num 0
      else let ts = triples vals;
               smoothTransitions =
                 length (filter (\<lambda>(prev, cur, nxt).
                   jlt (jabs (jsub cur prev)) (Num 0.3) \<and> jlt (jabs (jsub nxt cur)) (Num 0.3)) ts);
               totalTransitions = length ts
           in if 0 < totalTransitions
              then jdiv (Num (real smoothTransitions)) (Num (real totalTransitions))
              else Num 0)"

definition hasGradualPressureIncrease :: "jsnum list \<Rightarrow> bool" where
  "hasGradualPressureIncrease vals =
     (if length vals < 3 then False
      else let peak = Math_max vals;
               gradualThreshold = jmul peak (Num 0.3);
               gradualPoints = length (takeWhile (\<lambda>v. jlt v gradualThreshold) vals)
           in 2 \<le> gradualPoints)"

text \<open>\<open>values.indexOf(peak)\<close> compares with \<open>===\<close> and returns \<open>-1\<close> when nothing is
  found; \<open>values.slice(k)\<close> counts a negative \<open>k\<close> from the end.\<close>

fun indexOf :: "jsnum list \<Rightarrow> jsnum \<Rightarrow> int" where
  "indexOf [] v = -1"
| "indexOf (x # xs) v =
     (if jeq x v then 0 else (let r = indexOf xs v in if r < 0 then -1 else r + 1))"

definition slice_from :: "int \<Rightarrow> 'a list \<Rightarrow> 'a list" where
  "slice_from k xs = (if k < 0 then drop (nat (int (length xs) + k)) xs else drop (nat k) xs)"

definition hasNaturalPressureRelease :: "jsnum list \<Rightarrow> bool" where
  "hasNaturalPressureRelease vals =
     (if length vals < 3 then False
      else let peak = Math_max vals;
               peakIndex = indexOf vals peak
           in if int (length vals) - 2 \<le> peakIndex then True
              else let releaseValues = slice_from peakIndex vals
                   in list_all (\<lambda>d. \<not> jgt d (jmul peak (Num 0.5)))
                        (adjacent (\<lambda>prev cur. jsub prev cur) releaseValues))"

definition calculateSmoothness :: "jsnum list \<Rightarrow> jsnum" where
  "calculateSmoothness vals =
     (if length vals < 2 then Num 0
      else let changes = adjacent (\<lambda>prev cur. jabs (jsub cur prev)) vals;
               totalChange = jsum changes;
               maxChange = foldl jmax2 (Num 0) changes;
               avgChange = jdiv totalChange (Num (real (length vals - 1)))
           in if jgt maxChange (Num 0) then jsub (Num 1) (jdiv avgChange maxChange)
              else Num 1)"

definition calculateRhythmicity :: "jsnum list \<Rightarrow> jsnum" where
  "calculateRhythmicity intervals =
     (if length intervals < 3 then Num 0
      else let v = calculateVariance intervals;
               mean = jdiv (jsum intervals) (Num (real (length intervals)))
           in if jgt mean (Num 0) then jmax2 (Num 0) (jsub (Num 1) (jdiv v (jmul mean mean)))
              else Num 0)"

definition normalizeArray :: "jsnum list \<Rightarrow> jsnum list" where
  "normalizeArray arr =
     (if length arr = 0 then []
      else let mn = Math_min arr; mx = Math_max arr; range = jsub mx mn
           in if jeq range (Num 0) then map (\<lambda>_. Num 0) arr
              else map (\<lambda>v. jdiv (jsub v mn) range) arr)"

text \<open>\<open>d.pressure || d.weight || 0\<close>.\<close>

definition pressure_or_weight :: "pressure_sample \<Rightarrow> jsnum" where
  "pressure_or_weight d =
     (if truthy (pressure d) then pressure d
      else case weight d of
             None \<Rightarrow> Num 0
           | Some w \<Rightarrow> if truthy w then w else Num 0)"

text \<open>The signature loops \<open>for (i = 0; i < n; i += step)\<close> read every \<open>step\<close>-th
  entry and round it to two decimals.\<close>

definition every_nth :: "nat \<Rightarrow> 'a list \<Rightarrow> 'a list" where
  "every_nth step xs = map (\<lambda>k. xs ! (k * step)) [0..<(length xs + step - 1) div step]"

definition signature_points :: "nat \<Rightarrow> jsnum list \<Rightarrow> jsnum list" where
  "signature_points parts normalized =
     (let step = max 1 (length normalized div parts)
      in map (\<lambda>v. jdiv (jround (jmul v (Num 100))) (Num 100)) (every_nth step normalized))"

definition createPressureSignature :: "pressure_sample list \<Rightarrow> jsnum list" where
  "createPressureSignature pd = signature_points 10 (normalizeArray (map pressure_or_weight pd))"

text \<open>\<open>d.acceleration || {x: 0, y: 0, z: 0}\<close> and the magnitude of the vector.\<close>

definition magnitude :: "jsnum \<times> jsnum \<times> jsnum \<Rightarrow> jsnum" where
  "magnitude a = (case a of (x, y, z) \<Rightarrow> jsqrt (jadd (jadd (jmul x x) (jmul y y)) (jmul z z)))"

definition acc_magnitude :: "motion_sample \<Rightarrow> jsnum" where
  "acc_magnitude d =
     magnitude (case acceleration d of None \<Rightarrow> (Num 0, Num 0, Num 0) | Some a \<Rightarrow> a)"

definition createMotionSignature :: "motion_sample list \<Rightarrow> jsnum list" where
  "createMotionSignature md =
     (if length md = 0 then []
      else signature_points 5 (normalizeArray (map acc_magnitude md)))"

definition calculateUniqueness :: "jsnum list \<Rightarrow> jsnum list \<Rightarrow> jsnum" where
  "calculateUniqueness pressureSignature motionSignature =
     (let combined = pressureSignature @ motionSignature
      in if length combined = 0 then Num 0
         else let v = calculateVariance combined;
                  range = jsub (Math_max combined) (Math_min combined)
              in jmin2 (Num 1) (jmul v range))"

definition calculateComplexity :: "pressure_sample list \<Rightarrow> motion_sample list \<Rightarrow> jsnum" where
  "calculateComplexity pd md =
     (let pressureComplexity =
            (if 0 < length pd then calculateVariance (map pressure_or_weight pd) else Num 0);
          motionComplexity =
            (if 0 < length md then calculateVariance (map acc_magnitude md) else Num 0)
      in jdiv (jadd pressureComplexity motionComplexity) (Num 2))"

text \<open>A point in time is a number of milliseconds. A \<open>Date\<close> object that went through
  \<open>JSON.stringify\<close> and \<open>JSON.parse\<close> comes back as its ISO string: compared with a
  \<open>Date\<close> the string converts to \<open>NaN\<close>, so the comparison is false, and subtracting
  a \<open>Date\<close> from it gives \<open>NaN\<close>.\<close>

datatype dateval = DateObj int | IsoString int

definition toISOString :: "int \<Rightarrow> dateval" where
  "toISOString t = IsoString t"

text \<open>\<open>new Date() > d\<close>, with \<open>new Date()\<close> at time \<open>now\<close>.\<close>

definition now_after :: "int \<Rightarrow> dateval \<Rightarrow> bool" where
  "now_after now d = (case d of DateObj t \<Rightarrow> t < now | IsoString _ \<Rightarrow> False)"

text \<open>\<open>Math.max(0, Math.floor((d - new Date()) / 1000))\<close>: a number of seconds, or
  \<open>NaN\<close> (here \<open>None\<close>) when \<open>d\<close> is a string; and the test \<open>ttl > 0\<close>.\<close>

definition ttl_seconds :: "dateval \<Rightarrow> int \<Rightarrow> int option" where
  "ttl_seconds d now =
     (case d of DateObj t \<Rightarrow> Some (max 0 ((t - now) div 1000)) | IsoString _ \<Rightarrow> None)"

definition ttl_positive :: "int option \<Rightarrow> bool" where
  "ttl_positive ttl = (case ttl of None \<Rightarrow> False | Some k \<Rightarrow> 0 < k)"

text \<open>Each feature analysis returns \<open>{score, characteristics}\<close>. The characteristics
  are the local values below; they are reported and not read again, so the record keeps
  the score.\<close>

record feature_analysis =
  score :: jsnum

definition svc_analyzePressurePattern ::
  "analyzer \<Rightarrow> pressure_sample list \<Rightarrow> device_profile \<Rightarrow> feature_analysis" where
  "svc_analyzePressurePattern this pressureData deviceProfile =
     (let pressures = map pressure_or_weight pressureData
      in if length pressures = 0 then \<lparr>score = Num 0\<rparr>
         else
           let calibratedPressures = map (\<lambda>p. jmul p (pressureMultiplier deviceProfile)) pressures;
               v = calculateVariance calibratedPressures;
               naturalness = calculateNaturalness calibratedPressures;
               hasGradualIncrease = hasGradualPressureIncrease calibratedPressures;
               hasNaturalRelease = hasNaturalPressureRelease calibratedPressures;
               smoothnessScore = calculateSmoothness calibratedPressures;
               sc = Num 0;
               sc = (if jge v (rmin (pressureVariance (patterns this)))
                        \<and> jle v (rmax (pressureVariance (patterns this)))
                     then jadd sc (Num 0.25) else sc);
               sc = (if jge naturalness (rmin (naturalRhythm (patterns this)))
                     then jadd sc (Num 0.25) else sc);
               sc = (if hasGradualIncrease then jadd sc (Num 0.2) else sc);
               sc = (if hasNaturalRelease then jadd sc (Num 0.2) else sc);
               sc = (if jgt smoothnessScore (Num 0.3) \<and> jlt smoothnessScore (Num 0.9)
                     then jadd sc (Num 0.1) else sc)
           in \<lparr>score = sc\<rparr>)"

definition analyzeTimingPattern :: "analyzer \<Rightarrow> pressure_sample list \<Rightarrow> feature_analysis" where
  "analyzeTimingPattern this pressureData =
     (let timestamps = map timestamp pressureData
      in if length timestamps < 2 then \<lparr>score = Num 0\<rparr>
         else
           let intervals = adjacent (\<lambda>prev cur. jsub cur prev) timestamps;
               intervalVariance = calculateVariance intervals;
               rhythmicity = calculateRhythmicity intervals;
               totalDuration = jsub (last timestamps) (hd timestamps);
               sc = Num 0;
               sc = (if jge intervalVariance (rmin (timingIrregularity (patterns this)))
                        \<and> jle intervalVariance (rmax (timingIrregularity (patterns this)))
                     then jadd sc (Num 0.4) else sc);
               sc = (if jgt totalDuration (Num 500) \<and> jlt totalDuration (Num 15000)
                     then jadd sc (Num 0.3) else sc);
               sc = (if jge rhythmicity (rmin (naturalRhythm (patterns this)))
                        \<and> jle rhythmicity (rmax (naturalRhythm (patterns this)))
                     then jadd sc (Num 0.3) else sc)
           in \<lparr>score = sc\<rparr>)"

text \<open>\<open>d.acceleration?.x || 0\<close>, for each component.\<close>

definition or_zero :: "jsnum \<Rightarrow> jsnum" where
  "or_zero v = (if truthy v then v else Num 0)"

definition acceleration_or_zero :: "motion_sample \<Rightarrow> jsnum \<times> jsnum \<times> jsnum" where
  "acceleration_or_zero d =
     (case acceleration d of
        None \<Rightarrow> (Num 0, Num 0, Num 0)
      | Some (x, y, z) \<Rightarrow> (or_zero x, or_zero y, or_zero z))"

definition analyzeMotionPattern :: "motion_sample list \<Rightarrow> feature_analysis" where
  "analyzeMotionPattern motionData =
     (if length motionData = 0 then \<lparr>score = Num 0.5\<rparr>
      else
        let motionMagnitude = map (\<lambda>d. magnitude (acceleration_or_zero d)) motionData;
            avgMagnitude = jdiv (jsum motionMagnitude) (Num (real (length motionMagnitude)));
            motionVariance = calculateVariance motionMagnitude;
            hasSubtleMovement = (jgt avgMagnitude (Num 0.01) \<and> jlt avgMagnitude (Num 0.5));
            hasNaturalVariation = (jgt motionVariance (Num 0.001) \<and> jlt motionVariance (Num 0.1));
            sc = Num 0.5;
            sc = (if hasSubtleMovement then jadd sc (Num 0.2) else sc);
            sc = (if hasNaturalVariation then jadd sc (Num 0.2) else sc);
            sc = (if jlt motionVariance (Num 0.0001) then jsub sc (Num 0.3) else sc)
        in \<lparr>score = sc\<rparr>)"

definition analyzeDeviceCharacteristics :: "device_info \<Rightarrow> feature_analysis" where
  "analyzeDeviceCharacteristics di =
     (let ua = (case userAgent di of None \<Rightarrow> [] | Some u \<Rightarrow> u);
          tp = (case trackpadType di of
                  None \<Rightarrow> ''unknown''
                | Some t \<Rightarrow> if t = [] then ''unknown'' else t);
          w = opt_num (case screen di of None \<Rightarrow> None | Some s \<Rightarrow> width s);
          h = opt_num (case screen di of None \<Rightarrow> None | Some s \<Rightarrow> height s);
          sc = Num 0.5;
          sc = (if tp \<noteq> ''unknown'' \<and> tp \<noteq> ''generic'' then jadd sc (Num 0.2) else sc);
          sc = (if str_includes ua ''Macintosh'' \<or> str_includes ua ''Windows''
                   \<or> str_includes ua ''iPad''
                then jadd sc (Num 0.2) else sc);
          sc = (if truthy w \<and> truthy h \<and> jgt w (Num 800) \<and> jgt h (Num 600)
                   \<and> jlt w (Num 8000) \<and> jlt h (Num 8000)
                then jadd sc (Num 0.1) else sc)
      in \<lparr>score = sc\<rparr>)"

definition analyzeBiometricSignature ::
  "pressure_sample list \<Rightarrow> motion_sample list \<Rightarrow> feature_analysis" where
  "analyzeBiometricSignature pressureData motionData =
     (let pressureSignature = createPressureSignature pressureData;
          motionSignature = createMotionSignature motionData;
          uniqueness = calculateUniqueness pressureSignature motionSignature;
          complexity = calculateComplexity pressureData motionData;
          sc = Num 0.5;
          sc = (if jgt complexity (Num 0.3) then jadd sc (Num 0.3) else sc);
          sc = (if jgt uniqueness (Num 0.2) \<and> jlt uniqueness (Num 0.8)
                then jadd sc (Num 0.2) else sc)
      in \<lparr>score = sc\<rparr>)"

text \<open>The five analyses in the order of the object literal, each with its weight. Every
  score is a number, so every entry is counted.\<close>

record analyses =
  a_pressure :: feature_analysis
  a_timing :: feature_analysis
  a_motion :: feature_analysis
  a_device :: feature_analysis
  a_biometric :: feature_analysis

definition calculateCompositeConfidence :: "analyses \<Rightarrow> jsnum" where
  "calculateCompositeConfidence as =
     (let entries = [(score (a_pressure as), Num 0.35), (score (a_timing as), Num 0.25),
                     (score (a_motion as), Num 0.15), (score (a_device as), Num 0.10),
                     (score (a_biometric as), Num 0.15)];
          weightedSum = foldl (\<lambda>acc (s, w). jadd acc (jmul s w)) (Num 0) entries;
          totalWeight = foldl (\<lambda>acc (s, w). jadd acc w) (Num 0) entries
      in if jgt totalWeight (Num 0) then jdiv weightedSum totalWeight else Num 0)"

record composite =
  baseConfidence :: jsnum
  adjustedConfidence :: jsnum
  browserBoost :: jsnum

record pattern_result =
  pr_isHuman :: bool
  pr_confidence :: jsnum
  pr_reason :: "string option"
  pr_detectionMethod :: "string option"
  pr_deviceProfile :: "string option"
  pr_analysis :: "(analyses \<times> composite) option"
  pr_timestamp :: "dateval option"

text \<open>A property read \<open>obj[key]\<close> on an object literal also finds the members that
  every object inherits from \<open>Object.prototype\<close>. The value found there is a function
  (for \<open>__proto__\<close>, the prototype object): it is truthy and has no properties of the
  tables' entries.\<close>

definition object_prototype_members :: "string list" where
  "object_prototype_members =
     [''constructor'', ''__defineGetter__'', ''__defineSetter__'', ''hasOwnProperty'',
      ''__lookupGetter__'', ''__lookupSetter__'', ''isPrototypeOf'',
      ''propertyIsEnumerable'', ''toString'', ''valueOf'', ''__proto__'',
      ''toLocaleString'']"

text \<open>\<open>this.browserPatterns[detectionMethod] || this.browserPatterns.pointerEvents\<close>,
  as the \<open>confidenceBoost\<close> of the entry found. For an inherited member the boost is
  \<open>undefined\<close>, which the sum \<open>baseConfidence + confidenceBoost\<close> turns into \<open>NaN\<close>;
  it is \<open>NaN\<close> here.\<close>

definition browserPattern_of :: "analyzer \<Rightarrow> string \<Rightarrow> jsnum option" where
  "browserPattern_of this dm =
     (case map_of (browserPatterns this) dm of
        Some b \<Rightarrow> Some b
      | None \<Rightarrow>
          if dm \<in> set object_prototype_members then Some NaN
          else map_of (browserPatterns this) ''pointerEvents'')"

text \<open>\<open>analyzePattern\<close> reads the analyzer object and, for the reported timestamp, the
  clock. A detection method that finds nothing in \<open>browserPatterns\<close> takes the entry of
  \<open>pointerEvents\<close>; were that entry missing too, reading its boost would throw, and
  the \<open>catch\<close> block answers. With an inherited member the reported \<open>browserBoost\<close> is
  \<open>undefined\<close> (\<open>NaN\<close> here) and the confidence is \<open>Math.min(1.0, NaN)\<close>.\<close>

definition analyzePattern :: "analyzer \<Rightarrow> int \<Rightarrow> verification_data \<Rightarrow> pattern_result" where
  "analyzePattern this now verificationData =
     (let pressureData = vd_pressureData verificationData;
          di = vd_deviceInfo verificationData;
          dm = (if vd_detectionMethod verificationData = [] then ''unknown''
                else vd_detectionMethod verificationData);
          motionData = vd_motionData verificationData
      in if length pressureData < 5
         then \<lparr>pr_isHuman = False, pr_confidence = Num 0,
               pr_reason = Some ''Insufficient pressure data'', pr_detectionMethod = None,
               pr_deviceProfile = None, pr_analysis = None, pr_timestamp = None\<rparr>
         else
           let deviceProfile = getDeviceProfile this di;
               browserPattern = browserPattern_of this dm;
               as = \<lparr>a_pressure = svc_analyzePressurePattern this pressureData deviceProfile,
                     a_timing = analyzeTimingPattern this pressureData,
                     a_motion = analyzeMotionPattern motionData,
                     a_device = analyzeDeviceCharacteristics di,
                     a_biometric = analyzeBiometricSignature pressureData motionData\<rparr>;
               base = calculateCompositeConfidence as
           in case browserPattern of
                None \<Rightarrow>
                  \<lparr>pr_isHuman = False, pr_confidence = Num 0,
                   pr_reason = Some ''Analysis error'', pr_detectionMethod = None,
                   pr_deviceProfile = None, pr_analysis = None, pr_timestamp = None\<rparr>
              | Some boost \<Rightarrow>
                  let adjusted = jmin2 (Num 1.0) (jadd base boost);
                      human = jge adjusted (Num 0.65)
                  in \<lparr>pr_isHuman = human, pr_confidence = adjusted, pr_reason = None,
                      pr_detectionMethod = Some dm,
                      pr_deviceProfile = Some (name deviceProfile),
                      pr_analysis = Some (as, \<lparr>baseConfidence = base,
                                                adjustedConfidence = adjusted,
                                                browserBoost = boost\<rparr>),
                      pr_timestamp = Some (toISOString now)\<rparr>)"

section \<open>Challenge and verification lifecycle\<close>

text \<open>
  The services reach two collaborators: the database, whose tables are lists of rows
  (\<open>insert\<close> appends a row, \<open>where('id', x)\<close> selects the rows with that id, \<open>limit(1)\<close>
  takes the first, \<open>update\<close> changes the selected rows), and the cache, which maps a key
  to a string and a time at which the entry is gone (\<open>setEx\<close> with a number of seconds).
  A cached value is the \<open>JSON.stringify\<close> of an object and is read back with
  \<open>JSON.parse\<close>; a cache entry below holds the object as \<open>JSON.parse\<close> returns it.
  The keys \<open>challenge:<id>\<close> and \<open>verification:<id>\<close> never meet, so each prefix has
  its own map from the id.
  One service call runs at one time \<open>now\<close>, and \<open>uuidv4()\<close> returns the identifier
  passed to the call.
\<close>

record config =
  challengeExpiryMinutes :: int
  verificationExpiryMinutes :: int
  jwtSecret :: "string option"
  jwtExpiresIn :: int

text \<open>The settings when the environment sets only the signing secret: challenges live
  5 minutes, verifications 30 minutes, tokens 24 hours.\<close>

definition default_config :: "string \<Rightarrow> config" where
  "default_config secret =
     \<lparr>challengeExpiryMinutes = 5, verificationExpiryMinutes = 30,
      jwtSecret = Some secret, jwtExpiresIn = 86400\<rparr>"

record challenge =
  c_id :: string
  c_type :: string
  c_difficulty :: string
  c_duration :: jsnum
  c_status :: string
  c_apiKeyId :: string
  c_createdAt :: dateval
  c_expiresAt :: dateval

text \<open>\<open>JSON.parse(JSON.stringify(x))\<close>: a \<open>Date\<close> becomes its ISO string, a number that
  is \<open>NaN\<close> or infinite becomes \<open>null\<close>.\<close>

definition json_date :: "dateval \<Rightarrow> dateval" where
  "json_date d = (case d of DateObj t \<Rightarrow> IsoString t | IsoString t \<Rightarrow> IsoString t)"

definition json_number :: "jsnum option \<Rightarrow> jsnum option" where
  "json_number v = (case v of Some (Num r) \<Rightarrow> Some (Num r) | _ \<Rightarrow> None)"

text \<open>The \<open>jsonwebtoken\<close> package is a library outside the repository, used through
  \<open>sign\<close> and \<open>verify\<close>. A token carries its payload, the issue and expiry times in seconds and
  the key its signature was made with; \<open>sign\<close> serialises the payload as JSON, and
  \<open>verify\<close> accepts a token whose signature was made with the verifying key and whose
  expiry time has not been reached.\<close>

record jwt_payload =
  jp_verificationId :: string
  jp_challengeId :: string
  jp_isHuman :: bool
  jp_confidence :: "jsnum option"
  jp_processedAt :: dateval

record jwt =
  jwt_payload :: jwt_payload
  jwt_iat :: int
  jwt_exp :: int
  jwt_signed_with :: string

definition jwt_sign :: "jwt_payload \<Rightarrow> string \<Rightarrow> int \<Rightarrow> int \<Rightarrow> jwt" where
  "jwt_sign payload secret expiresIn now =
     \<lparr>jwt_payload = payload\<lparr>jp_confidence := json_number (jp_confidence payload),
                             jp_processedAt := json_date (jp_processedAt payload)\<rparr>,
      jwt_iat = now div 1000, jwt_exp = now div 1000 + expiresIn,
      jwt_signed_with = secret\<rparr>"

definition jwt_verify :: "jwt \<Rightarrow> string \<Rightarrow> int \<Rightarrow> jwt_payload option" where
  "jwt_verify tok secret now =
     (if jwt_signed_with tok = secret \<and> now div 1000 < jwt_exp tok
      then Some (jwt_payload tok) else None)"

text \<open>A verification. \<open>v_confidence\<close> is \<open>None\<close> for JSON's \<open>null\<close>.\<close>

record verification =
  v_id :: string
  v_challengeId :: string
  v_status :: string
  v_isHuman :: bool
  v_confidence :: "jsnum option"
  v_detectionMethod :: "string option"
  v_deviceProfile :: "string option"
  v_analysisDetails :: "(analyses \<times> composite) option"
  v_submittedAt :: dateval
  v_processedAt :: dateval
  v_expiresAt :: dateval
  v_apiKeyId :: string
  v_rawPressureData :: "pressure_sample list"
  v_rawMotionData :: "motion_sample list"
  v_token :: "jwt option"

text \<open>The same for a challenge and a verification object.\<close>

definition json_challenge :: "challenge \<Rightarrow> challenge" where
  "json_challenge c =
     c\<lparr>c_createdAt := json_date (c_createdAt c), c_expiresAt := json_date (c_expiresAt c)\<rparr>"

definition json_verification :: "verification \<Rightarrow> verification" where
  "json_verification v =
     v\<lparr>v_confidence := json_number (v_confidence v),
       v_submittedAt := json_date (v_submittedAt v),
       v_processedAt := json_date (v_processedAt v),
       v_expiresAt := json_date (v_expiresAt v)\<rparr>"

record pressure_data_row =
  pd_verification_id :: string
  pd_challenge_id :: string
  pd_pressure_samples :: "pressure_sample list"
  pd_sample_count :: nat

record state =
  db_challenges :: "challenge list"
  db_verifications :: "verification list"
  db_pressure_data :: "pressure_data_row list"
  challenge_cache :: "string \<Rightarrow> (challenge \<times> int) option"
  verification_cache :: "string \<Rightarrow> (verification \<times> int) option"

definition empty_state :: state where
  "empty_state = \<lparr>db_challenges = [], db_verifications = [], db_pressure_data = [],
                   challenge_cache = (\<lambda>_. None), verification_cache = (\<lambda>_. None)\<rparr>"

text \<open>\<open>redisClient.get\<close> and \<open>redisClient.setEx\<close> on one of the two maps.\<close>

definition redis_get :: "(string \<Rightarrow> ('v \<times> int) option) \<Rightarrow> int \<Rightarrow> string \<Rightarrow> 'v option" where
  "redis_get c now key =
     (case c key of
        None \<Rightarrow> None
      | Some (v, gone) \<Rightarrow> if now < gone then Some v else None)"

definition redis_setEx ::
  "string \<Rightarrow> int \<Rightarrow> 'v \<Rightarrow> int \<Rightarrow> (string \<Rightarrow> ('v \<times> int) option)
     \<Rightarrow> (string \<Rightarrow> ('v \<times> int) option)" where
  "redis_setEx key seconds v now c = c(key := Some (v, now + seconds * 1000))"

subsection \<open>challengeService\<close>

record challenge_type_config =
  defaultDuration :: jsnum
  requiredSamples :: nat

definition challengeTypes :: "(string \<times> challenge_type_config) list" where
  "challengeTypes =
     [(''pressure_pattern'', \<lparr>defaultDuration = Num 5, requiredSamples = 50\<rparr>),
      (''rhythm_test'', \<lparr>defaultDuration = Num 8, requiredSamples = 30\<rparr>),
      (''sustained_pressure'', \<lparr>defaultDuration = Num 10, requiredSamples = 100\<rparr>),
      (''progressive_pressure'', \<lparr>defaultDuration = Num 7, requiredSamples = 70\<rparr>)]"

datatype service_error =
  InvalidChallengeType
  | ChallengeNotFound
  | ChallengeNotPending
  | ChallengeExpired
  | SecretMissing
  | TypeError

text \<open>\<open>createChallenge\<close>; the instructions text and the metadata are stored and never
  read by the lifecycle, and are left out of the record. A type that names an inherited
  member of the \<open>challengeTypes\<close> object passes the test of the configuration, and
  building the instructions from it throws a \<open>TypeError\<close>.\<close>

definition createChallenge ::
  "config \<Rightarrow> int \<Rightarrow> string \<Rightarrow> string \<Rightarrow> string \<Rightarrow> jsnum option \<Rightarrow> string \<Rightarrow> state
     \<Rightarrow> (service_error + challenge) \<times> state" where
  "createChallenge cfg now challengeId ty difficulty dur apiKeyId st =
     (let expiryMinutes = challengeExpiryMinutes cfg;
          expiresAt = DateObj (now + expiryMinutes * 60 * 1000)
      in case map_of challengeTypes ty of
           None \<Rightarrow>
             if ty \<in> set object_prototype_members then (Inl TypeError, st)
             else (Inl InvalidChallengeType, st)
         | Some challengeConfig \<Rightarrow>
             let ch = \<lparr>c_id = challengeId, c_type = ty, c_difficulty = difficulty,
                       c_duration = (case dur of
                                       None \<Rightarrow> defaultDuration challengeConfig
                                     | Some d \<Rightarrow> if truthy d then d
                                                else defaultDuration challengeConfig),
                       c_status = ''pending'', c_apiKeyId = apiKeyId,
                       c_createdAt = DateObj now, c_expiresAt = expiresAt\<rparr>;
                 st1 = st\<lparr>db_challenges := db_challenges st @ [ch]\<rparr>;
                 st2 = st1\<lparr>challenge_cache :=
                             redis_setEx challengeId (expiryMinutes * 60) (json_challenge ch) now
                               (challenge_cache st1)\<rparr>
             in (Inr ch, st2))"

definition getChallenge :: "int \<Rightarrow> string \<Rightarrow> state \<Rightarrow> challenge option \<times> state" where
  "getChallenge now challengeId st =
     (case redis_get (challenge_cache st) now challengeId of
        Some cached \<Rightarrow> (Some cached, st)
      | None \<Rightarrow>
          (case find (\<lambda>row. c_id row = challengeId) (db_challenges st) of
             None \<Rightarrow> (None, st)
           | Some row \<Rightarrow>
               let ttl = ttl_seconds (c_expiresAt row) now
               in if ttl_positive ttl
                  then (Some row,
                        st\<lparr>challenge_cache :=
                             redis_setEx challengeId (the ttl) (json_challenge row) now
                               (challenge_cache st)\<rparr>)
                  else (Some row, st)))"

definition updateChallengeStatus :: "int \<Rightarrow> string \<Rightarrow> string \<Rightarrow> state \<Rightarrow> state" where
  "updateChallengeStatus now challengeId status st =
     (let st1 = st\<lparr>db_challenges :=
                     map (\<lambda>row. if c_id row = challengeId then row\<lparr>c_status := status\<rparr> else row)
                       (db_challenges st)\<rparr>
      in case getChallenge now challengeId st1 of
           (None, st2) \<Rightarrow> st2
         | (Some ch, st2) \<Rightarrow>
             let ch' = ch\<lparr>c_status := status\<rparr>;
                 ttl = ttl_seconds (c_expiresAt ch') now
             in if ttl_positive ttl
                then st2\<lparr>challenge_cache :=
                           redis_setEx challengeId (the ttl) (json_challenge ch') now
                             (challenge_cache st2)\<rparr>
                else st2)"

subsection \<open>verificationService\<close>

record client_info =
  platform :: "string option"
  version :: "string option"
  sessionId :: "string option"

text \<open>The body of a submission request, as the route receives it.\<close>

record submit_body =
  b_challengeId :: string
  b_pressureData :: "pressure_sample list option"
  b_motionData :: "motion_sample list option"
  b_deviceInfo :: "device_info option"
  b_detectionMethod :: "string option"
  b_clientInfo :: "client_info option"

definition empty_device_info :: device_info where
  "empty_device_info =
     \<lparr>userAgent = None, screen = None, trackpadType = None, browserSupport = None\<rparr>"

definition generateVerificationToken :: "config \<Rightarrow> int \<Rightarrow> verification \<Rightarrow> jwt option" where
  "generateVerificationToken cfg now v =
     (case jwtSecret cfg of
        None \<Rightarrow> None
      | Some secret \<Rightarrow>
          Some (jwt_sign \<lparr>jp_verificationId = v_id v, jp_challengeId = v_challengeId v,
                          jp_isHuman = v_isHuman v, jp_confidence = v_confidence v,
                          jp_processedAt = v_processedAt v\<rparr>
                  secret (jwtExpiresIn cfg) now))"

text \<open>The object literals of \<open>submitVerification\<close>: the data handed to the analyzer
  (with the \<open>||\<close> defaults), the verification built from the analysis result, and the
  row inserted into the \<open>verifications\<close> table, which has no column for the
  detection method, the device profile or the raw data.\<close>

definition verificationData_of :: "submit_body \<Rightarrow> challenge \<Rightarrow> verification_data" where
  "verificationData_of body ch =
     \<lparr>vd_pressureData = (case b_pressureData body of None \<Rightarrow> [] | Some p \<Rightarrow> p),
      vd_motionData = (case b_motionData body of None \<Rightarrow> [] | Some m \<Rightarrow> m),
      vd_deviceInfo = (case b_deviceInfo body of None \<Rightarrow> empty_device_info | Some d \<Rightarrow> d),
      vd_detectionMethod = (case b_detectionMethod body of
                              None \<Rightarrow> ''unknown''
                            | Some m \<Rightarrow> if m = [] then ''unknown'' else m),
      vd_challengeType = c_type ch,
      vd_challengeDifficulty = c_difficulty ch\<rparr>"

definition verification_of ::
  "config \<Rightarrow> int \<Rightarrow> string \<Rightarrow> submit_body \<Rightarrow> string \<Rightarrow> pattern_result \<Rightarrow> verification" where
  "verification_of cfg now verificationId body apiKeyId analysisResult =
     \<lparr>v_id = verificationId, v_challengeId = b_challengeId body,
      v_status = ''completed'',
      v_isHuman = pr_isHuman analysisResult,
      v_confidence = Some (pr_confidence analysisResult),
      v_detectionMethod = pr_detectionMethod analysisResult,
      v_deviceProfile = pr_deviceProfile analysisResult,
      v_analysisDetails = pr_analysis analysisResult,
      v_submittedAt = DateObj now, v_processedAt = DateObj now,
      v_expiresAt = DateObj (now + verificationExpiryMinutes cfg * 60 * 1000),
      v_apiKeyId = apiKeyId,
      v_rawPressureData = (case b_pressureData body of None \<Rightarrow> [] | Some p \<Rightarrow> take 100 p),
      v_rawMotionData = (case b_motionData body of None \<Rightarrow> [] | Some m \<Rightarrow> take 50 m),
      v_token = None\<rparr>"

definition verification_row :: "verification \<Rightarrow> verification" where
  "verification_row v =
     v\<lparr>v_detectionMethod := None, v_deviceProfile := None,
       v_rawPressureData := [], v_rawMotionData := []\<rparr>"

text \<open>\<open>submitVerification\<close>. A thrown error is the left summand; the state is returned
  in either case. Inside the \<open>try\<close> block two steps can throw: signing without a secret,
  and reading \<open>pressureData.length\<close> when the body has no pressure data (after the
  verification row is inserted). The \<open>catch\<close> block marks the challenge failed and
  rethrows.\<close>

definition submitVerification ::
  "config \<Rightarrow> analyzer \<Rightarrow> int \<Rightarrow> string \<Rightarrow> submit_body \<Rightarrow> string \<Rightarrow> state
     \<Rightarrow> (service_error + verification) \<times> state" where
  "submitVerification cfg an now verificationId body apiKeyId st =
     (let challengeId = b_challengeId body
      in case getChallenge now challengeId st of
           (None, st1) \<Rightarrow> (Inl ChallengeNotFound, st1)
         | (Some ch, st1) \<Rightarrow>
             if c_status ch \<noteq> ''pending'' then (Inl ChallengeNotPending, st1)
             else if now_after now (c_expiresAt ch) then (Inl ChallengeExpired, st1)
             else
               let st2 = updateChallengeStatus now challengeId ''processing'' st1;
                   analysisResult = analyzePattern an now (verificationData_of body ch);
                   v = verification_of cfg now verificationId body apiKeyId analysisResult
               in case generateVerificationToken cfg now v of
                    None \<Rightarrow> (Inl SecretMissing, updateChallengeStatus now challengeId ''failed'' st2)
                  | Some tok \<Rightarrow>
                      let v = v\<lparr>v_token := Some tok\<rparr>;
                          st3 = st2\<lparr>db_verifications :=
                                      db_verifications st2 @ [verification_row v]\<rparr>
                      in case b_pressureData body of
                           None \<Rightarrow>
                             (Inl TypeError, updateChallengeStatus now challengeId ''failed'' st3)
                         | Some p \<Rightarrow>
                             let st4 = st3\<lparr>db_pressure_data := db_pressure_data st3 @
                                            [\<lparr>pd_verification_id = v_id v,
                                              pd_challenge_id = v_challengeId v,
                                              pd_pressure_samples = p,
                                              pd_sample_count = length p\<rparr>]\<rparr>;
                                 st5 = st4\<lparr>verification_cache :=
                                            redis_setEx verificationId (30 * 60)
                                              (json_verification v) now (verification_cache st4)\<rparr>;
                                 st6 = updateChallengeStatus now challengeId ''completed'' st5
                             in (Inr v, st6))"

text \<open>\<open>getVerification\<close>: the object built from a database row has no
  detection method, device profile or raw data, as the row has none.\<close>

definition getVerification :: "int \<Rightarrow> string \<Rightarrow> state \<Rightarrow> verification option \<times> state" where
  "getVerification now verificationId st =
     (case redis_get (verification_cache st) now verificationId of
        Some cached \<Rightarrow> (Some cached, st)
      | None \<Rightarrow>
          (case find (\<lambda>row. v_id row = verificationId) (db_verifications st) of
             None \<Rightarrow> (None, st)
           | Some row \<Rightarrow>
               let ttl = ttl_seconds (v_expiresAt row) now
               in if ttl_positive ttl
                  then (Some row,
                        st\<lparr>verification_cache :=
                             redis_setEx verificationId (the ttl) (json_verification row) now
                               (verification_cache st)\<rparr>)
                  else (Some row, st)))"

text \<open>A JavaScript value of a result object; a property that is not in the object reads
  as \<open>undefined\<close>, here \<open>None\<close> of the lookup.\<close>

datatype jsvalue = VBool bool | VNum jsnum | VNull | VDate dateval | VStr string

definition confidence_value :: "jsnum option \<Rightarrow> jsvalue" where
  "confidence_value c = (case c of None \<Rightarrow> VNull | Some x \<Rightarrow> VNum x)"

definition validateToken ::
  "config \<Rightarrow> int \<Rightarrow> jwt \<Rightarrow> state \<Rightarrow> (string \<times> jsvalue) list \<times> state" where
  "validateToken cfg now tok st =
     (case (case jwtSecret cfg of None \<Rightarrow> None | Some secret \<Rightarrow> jwt_verify tok secret now) of
        None \<Rightarrow> ([(''valid'', VBool False)], st)
      | Some decoded \<Rightarrow>
          (case getVerification now (jp_verificationId decoded) st of
             (None, st1) \<Rightarrow> ([(''valid'', VBool False)], st1)
           | (Some v, st1) \<Rightarrow>
               if now_after now (v_expiresAt v) then ([(''valid'', VBool False)], st1)
               else ([(''valid'', VBool True),
                      (''isHuman'', VBool (v_isHuman v)),
                      (''confidence'', confidence_value (v_confidence v)),
                      (''verifiedAt'', VDate (v_processedAt v)),
                      (''expiresAt'', VDate (v_expiresAt v))], st1)))"

section \<open>The verification routes\<close>

text \<open>The request schema of \<open>POST /submit\<close>. The body is typed, so the schema's type
  checks are met by construction; what is left are the bounds. \<open>Joi.number()\<close> accepts
  a finite number within the safe integer range, \<open>Joi.string()\<close> a string that is not
  empty, and \<open>Joi.string().uuid()\<close> is the library's test \<open>uuid\<close>, a parameter.
  Validation does not stop at the first violation; the result lists the violated fields.\<close>

definition MAX_SAFE_INTEGER :: real where
  "MAX_SAFE_INTEGER = 9007199254740991"

fun is_number :: "jsnum \<Rightarrow> bool" where
  "is_number (Num r) = (- MAX_SAFE_INTEGER \<le> r \<and> r \<le> MAX_SAFE_INTEGER)"
| "is_number _ = False"

definition is_string :: "string \<Rightarrow> bool" where
  "is_string s = (s \<noteq> [])"

definition number_min :: "real \<Rightarrow> jsnum \<Rightarrow> bool" where
  "number_min lo x = (is_number x \<and> jge x (Num lo))"

definition number_range :: "real \<Rightarrow> real \<Rightarrow> jsnum \<Rightarrow> bool" where
  "number_range lo hi x = (is_number x \<and> jge x (Num lo) \<and> jle x (Num hi))"

definition optional :: "('a \<Rightarrow> bool) \<Rightarrow> 'a option \<Rightarrow> bool" where
  "optional ok v = (case v of None \<Rightarrow> True | Some x \<Rightarrow> ok x)"

definition pressure_item_ok :: "pressure_sample \<Rightarrow> bool" where
  "pressure_item_ok d =
     (is_number (timestamp d) \<and> number_range 0 1 (pressure d)
      \<and> optional (number_min 0) (weight d) \<and> optional (number_min 0) (deltaTime d)
      \<and> optional (number_min 0) (touchArea d)
      \<and> optional (\<lambda>(x, y). is_number x \<and> is_number y) (position d))"

definition motion_item_ok :: "motion_sample \<Rightarrow> bool" where
  "motion_item_ok d =
     (is_number (mtimestamp d)
      \<and> optional (\<lambda>(x, y, z). is_number x \<and> is_number y \<and> is_number z) (acceleration d)
      \<and> optional (\<lambda>(x, y, z). is_number x \<and> is_number y \<and> is_number z) (rotation d))"

fun is_integer :: "jsnum \<Rightarrow> bool" where
  "is_integer (Num r) = (r = of_int \<lfloor>r\<rfloor>)"
| "is_integer _ = False"

definition device_info_ok :: "device_info \<Rightarrow> bool" where
  "device_info_ok d =
     (optional is_string (userAgent d)
      \<and> optional (\<lambda>s. optional (\<lambda>w. is_integer w \<and> number_min 1 w) (width s)
                     \<and> optional (\<lambda>h. is_integer h \<and> number_min 1 h) (height s)
                     \<and> optional (number_min 0.1) (pixelRatio s)) (screen d)
      \<and> optional is_string (trackpadType d)
      \<and> optional (list_all is_string) (browserSupport d))"

definition client_info_ok :: "client_info \<Rightarrow> bool" where
  "client_info_ok c =
     (optional is_string (platform c) \<and> optional is_string (version c)
      \<and> optional is_string (sessionId c))"

definition valid_detection_methods :: "string list" where
  "valid_detection_methods =
     [''webHID'', ''forceTouch'', ''pointerEvents'', ''motionSensors'', ''touchEvents'']"

definition submitVerificationSchema :: "(string \<Rightarrow> bool) \<Rightarrow> submit_body \<Rightarrow> string list" where
  "submitVerificationSchema uuid body =
     (if uuid (b_challengeId body) then [] else [''challengeId''])
     @ (case b_pressureData body of
          None \<Rightarrow> [''pressureData'']
        | Some p \<Rightarrow>
            (if list_all pressure_item_ok p then [] else [''pressureData.items''])
            @ (if length p < 5 then [''pressureData''] else [])
            @ (if 10000 < length p then [''pressureData''] else []))
     @ (case b_motionData body of
          None \<Rightarrow> []
        | Some m \<Rightarrow>
            (if list_all motion_item_ok m then [] else [''motionData.items''])
            @ (if 5000 < length m then [''motionData''] else []))
     @ (if optional device_info_ok (b_deviceInfo body) then [] else [''deviceInfo''])
     @ (if optional (\<lambda>m. m \<in> set valid_detection_methods) (b_detectionMethod body)
        then [] else [''detectionMethod''])
     @ (if optional client_info_ok (b_clientInfo body) then [] else [''clientInfo''])"

text \<open>\<open>validateRequest(schema)\<close>: with violations the middleware answers 400
  \<open>Validation failed\<close> and the handler does not run.\<close>

definition validateRequest :: "('b \<Rightarrow> string list) \<Rightarrow> 'b \<Rightarrow> string list + 'b" where
  "validateRequest schema body =
     (let errors = schema body in if errors \<noteq> [] then Inl errors else Inr body)"

record submit_response_data =
  rd_verificationId :: string
  rd_challengeId :: string
  rd_status :: string
  rd_isHuman :: bool
  rd_confidence :: "jsnum option"
  rd_token :: "jwt option"

datatype submit_response =
  ValidationFailed "string list"
  | Created submit_response_data
  | InternalServerError service_error

text \<open>\<open>POST /submit\<close> behind the API key check: \<open>apiKeyId\<close> is the id of the
  authenticated key. An error thrown by the service goes to the error handler, which
  answers 500 for a plain \<open>Error\<close>.\<close>

definition submit_route ::
  "(string \<Rightarrow> bool) \<Rightarrow> config \<Rightarrow> analyzer \<Rightarrow> int \<Rightarrow> string \<Rightarrow> string \<Rightarrow> submit_body \<Rightarrow> state
     \<Rightarrow> submit_response \<times> state" where
  "submit_route uuid cfg an now verificationId apiKeyId body st =
     (case validateRequest (submitVerificationSchema uuid) body of
        Inl errors \<Rightarrow> (ValidationFailed errors, st)
      | Inr b \<Rightarrow>
          (case submitVerification cfg an now verificationId b apiKeyId st of
             (Inl err, st') \<Rightarrow> (InternalServerError err, st')
           | (Inr v, st') \<Rightarrow>
               (Created \<lparr>rd_verificationId = v_id v, rd_challengeId = v_challengeId v,
                         rd_status = v_status v, rd_isHuman = v_isHuman v,
                         rd_confidence = v_confidence v, rd_token = v_token v\<rparr>, st')))"

text \<open>\<open>POST /validate-token\<close>: the response data copies five properties of the
  service's result; a property the result does not have is \<open>undefined\<close> (\<open>None\<close>).\<close>

definition validate_token_route ::
  "config \<Rightarrow> int \<Rightarrow> jwt \<Rightarrow> state \<Rightarrow> (string \<times> jsvalue option) list \<times> state" where
  "validate_token_route cfg now tok st =
     (case validateToken cfg now tok st of
        (result, st') \<Rightarrow>
          ([(''valid'', map_of result ''valid''),
            (''isHuman'', map_of result ''isHuman''),
            (''confidence'', map_of result ''confidence''),
            (''expiresAt'', map_of result ''expiresAt''),
            (''verificationId'', map_of result ''verificationId'')], st'))"

section \<open>Input series of the testable properties\<close>

text \<open>The linear ramp \<open>pressure[i] = i / n\<close> and the constant series.\<close>

definition linear_ramp :: "nat \<Rightarrow> jsnum list" where
  "linear_ramp n = map (\<lambda>i. Num (real i / real n)) [0..<n]"

definition constant_series :: "nat \<Rightarrow> real \<Rightarrow> jsnum list" where
  "constant_series n c = replicate n (Num c)"

text \<open>A sample with a timestamp and a pressure and no optional field.\<close>

definition sample :: "real \<Rightarrow> real \<Rightarrow> pressure_sample" where
  "sample t p = \<lparr>timestamp = Num t, pressure = Num p, weight = None, deltaTime = None,
                 touchArea = None, position = None\<rparr>"

text \<open>A submission of five samples, 100 ms apart, for the challenge \<open>c1\<close>, and the
  state in which that challenge has just been created at time 0.\<close>

definition scenario_body :: submit_body where
  "scenario_body =
     \<lparr>b_challengeId = ''c1'',
      b_pressureData = Some (map (\<lambda>i. sample (real i * 100) 0.5) [0..<5]),
      b_motionData = None, b_deviceInfo = None, b_detectionMethod = None,
      b_clientInfo = None\<rparr>"

definition scenario_state :: "config \<Rightarrow> state" where
  "scenario_state cfg =
     snd (createChallenge cfg 0 ''c1'' ''pressure_pattern'' ''medium'' None ''key1'' empty_state)"


text \<open>The default settings with \<open>VERIFICATION_EXPIRY_MINUTES=10\<close>.\<close>

definition short_expiry_config :: config where
  "short_expiry_config = (default_config ''secret'')\<lparr>verificationExpiryMinutes := 10\<rparr>"

text \<open>A confidence lies in \<open>[0, 1]\<close> when it is a finite number between 0 and 1.\<close>

fun in_unit_interval :: "jsnum \<Rightarrow> bool" where
  "in_unit_interval (Num r) = (0 \<le> r \<and> r \<le> 1)"
| "in_unit_interval _ = False"

section \<open>Arithmetic of JavaScript numbers\<close>

lemma jsub_Num [simp]: "jsub (Num a) (Num b) = Num (a - b)"
  by (simp add: jsub_def)

lemma jpow2_Num [simp]: "jpow2 (Num a) = Num (a * a)"
  by (simp add: jpow2_def)

lemma jadd_NaN [simp]: "jadd x NaN = NaN"
  by (cases x) simp_all

lemma jmul_NaN [simp]: "jmul x NaN = NaN"
  by (cases x) simp_all

lemma jdiv_NaN [simp]: "jdiv x NaN = NaN"
  by (cases x) simp_all

lemma jlt_NaN [simp]: "jlt x NaN = False"
  by (cases x) simp_all

lemma jcmp_NaN [simp]:
  "jgt NaN x = False" "jgt x NaN = False" "jge NaN x = False" "jge x NaN = False"
  "jle NaN x = False" "jle x NaN = False"
  by (auto simp: jgt_def jge_def jle_def jeq_def)

lemma jcmp_Num [simp]:
  "jgt (Num a) (Num b) = (b < a)" "jge (Num a) (Num b) = (b \<le> a)"
  "jle (Num a) (Num b) = (a \<le> b)"
  by (auto simp: jgt_def jge_def jle_def jeq_def)

lemma jmin2_Num [simp]: "jmin2 (Num a) (Num b) = Num (min a b)"
  by (auto simp: jmin2_def)

lemma jmax2_Num [simp]: "jmax2 (Num a) (Num b) = Num (max a b)"
  by (auto simp: jmax2_def)

lemma jminmax_NaN [simp]:
  "jmin2 x NaN = NaN" "jmin2 NaN x = NaN" "jmax2 x NaN = NaN" "jmax2 NaN x = NaN"
  by (simp_all add: jmin2_def jmax2_def)


text \<open>Sums of finite numbers are the sums of the reals.\<close>

lemma foldl_jadd_Num:
  "(\<And>x. x \<in> set xs \<Longrightarrow> f x = Num (g x)) \<Longrightarrow>
   foldl (\<lambda>s x. jadd s (f x)) (Num a) xs = Num (a + sum_list (map g xs))"
  by (induction xs arbitrary: a) (simp_all add: add.assoc)

lemma jsum_map_Num: "jsum (map (\<lambda>x. Num (g x)) xs) = Num (sum_list (map g xs))"
proof -
  have "foldl jadd (Num a) (map (\<lambda>x. Num (g x)) xs) = Num (a + sum_list (map g xs))" for a
    by (induction xs arbitrary: a) (simp_all add: add.assoc)
  then show ?thesis by (simp add: jsum_def)
qed

lemma foldl_jadd_replicate:
  "f x = Num c \<Longrightarrow>
   foldl (\<lambda>s y. jadd s (f y)) (Num a) (replicate n x) = Num (a + real n * c)"
  by (induction n arbitrary: a) (simp_all add: algebra_simps)

lemma jsum_replicate: "jsum (replicate n (Num c)) = Num (real n * c)"
proof -
  have "foldl jadd (Num a) (replicate n (Num c)) = Num (a + real n * c)" for a
    by (induction n arbitrary: a) (simp_all add: algebra_simps)
  then show ?thesis by (simp add: jsum_def)
qed

lemma jsum_NaN: "NaN \<in> set xs \<Longrightarrow> jsum xs = NaN"
proof -
  have stuck: "foldl jadd NaN ys = NaN" for ys
    by (induction ys) simp_all
  have "NaN \<in> set xs \<Longrightarrow> foldl jadd a xs = NaN" for a
    by (induction xs arbitrary: a) (auto simp: stuck)
  then show "NaN \<in> set xs \<Longrightarrow> jsum xs = NaN"
    by (simp add: jsum_def)
qed

lemma adjacent_replicate: "adjacent f (replicate n x) = replicate (n - 1) (f x x)"
proof -
  have "zip (replicate n x) (replicate (n - 1) x) = replicate (n - 1) (x, x)"
    by (simp add: zip_replicate)
  then show ?thesis
    by (simp add: adjacent_def tl_replicate map_replicate)
qed

lemma sum_list_index: "sum_list (map real [0..<n]) = real n * (real n - 1) / 2"
  by (induction n) (simp_all add: field_simps)

lemma sum_list_index_square:
  "sum_list (map (\<lambda>i. real i * real i) [0..<n]) = (real n - 1) * real n * (2 * real n - 1) / 6"
  by (induction n) (simp_all add: field_simps)

lemma sum_list_divide: "sum_list (map (\<lambda>i. f i / c) xs) = sum_list (map f xs) / (c::real)"
  by (induction xs) (simp_all add: add_divide_distrib)

lemma sum_list_positive:
  fixes f :: "'a \<Rightarrow> real"
  assumes "\<And>x. x \<in> set xs \<Longrightarrow> 0 \<le> f x" and "y \<in> set xs" and "0 < f y"
  shows "0 < sum_list (map f xs)"
  using assms
proof (induction xs)
  case Nil
  then show ?case by simp
next
  case (Cons a xs)
  have rest: "0 \<le> sum_list (map f xs)"
    using Cons.prems(1) by (intro sum_list_nonneg) auto
  show ?case
  proof (cases "y = a")
    case True
    then show ?thesis using rest Cons.prems(3) by simp
  next
    case False
    then have "0 < sum_list (map f xs)" using Cons by auto
    moreover have "0 \<le> f a" using Cons.prems(1) by simp
    ultimately show ?thesis by simp
  qed
qed

section \<open>The statistics of special series\<close>

text \<open>The coefficient of variation of a constant series: \<open>0 / c\<close>, which is \<open>NaN\<close> when
  the constant is zero (and for the empty series).\<close>

lemma coefficientOfVariation_constant:
  "coefficientOfVariation (calculateStatistics (constant_series n c)) =
     (if n = 0 \<or> c = 0 then NaN else Num 0)"
proof (cases "n = 0")
  case True
  then show ?thesis
    by (simp add: calculateStatistics_def constant_series_def jsum_def Let_def)
next
  case False
  have "foldl (\<lambda>s p. jadd s (jpow2 (jsub p (Num c)))) (Num 0) (replicate n (Num c))
          = Num (0 + real n * 0)"
    by (rule foldl_jadd_replicate) simp
  then show ?thesis using False
    by (simp add: calculateStatistics_def constant_series_def jsum_replicate Let_def)
qed

lemma analyzeVariance_constant:
  "analyzeVariance (constant_series n c) = (if n = 0 \<or> c = 0 then Num 0.6 else Num 0.2)"
  by (simp add: analyzeVariance_def coefficientOfVariation_constant Let_def)

lemma analyzeStability_constant:
  "analyzeStability (constant_series n c) = (if n = 0 \<or> c = 0 then Num 0.8 else Num 0.3)"
  by (simp add: analyzeStability_def coefficientOfVariation_constant Let_def)

text \<open>The regression of a constant series: the slope is \<open>0 / 0\<close> for fewer than two
  values, and otherwise both sums of squares are zero and \<open>R\<^sup>2\<close> is \<open>1 - 0 / 0\<close>.\<close>

lemma checkLinearity_constant: "checkLinearity (constant_series n c) = NaN"
proof -
  consider "n = 0" | "n = 1" | "2 \<le> n" by linarith
  then show ?thesis
  proof cases
    case 1
    then show ?thesis
      by (simp add: checkLinearity_def constant_series_def jsum_def jsub_def jpow2_def Let_def)
  next
    case 2
    then show ?thesis
      by (simp add: checkLinearity_def constant_series_def jsum_def jsub_def jpow2_def Let_def)
  next
    case 3
    define N where "N = real n"
    define S1 where "S1 = N * (N - 1) / 2"
    define S2 where "S2 = (N - 1) * N * (2 * N - 1) / 6"
    have n2: "2 \<le> N" using 3 by (simp add: N_def)
    have len: "length (constant_series n c) = n" by (simp add: constant_series_def)
    have xs: "jsum (map (\<lambda>i. Num (real i)) [0..<n]) = Num S1"
      by (simp add: jsum_map_Num sum_list_index S1_def N_def)
    have ys: "jsum (constant_series n c) = Num (N * c)"
      by (simp add: constant_series_def jsum_replicate N_def)
    have cs: "constant_series n c = map (\<lambda>i. Num c) [0..<n]"
      by (simp add: constant_series_def map_replicate_const)
    have zip1: "zip (map (\<lambda>i. Num (real i)) [0..<n]) (constant_series n c)
                  = map (\<lambda>i. (Num (real i), Num c)) [0..<n]"
      unfolding cs by (simp add: zip_map_map zip_same_conv_map)
    have zip2: "zip (constant_series n c) (map (\<lambda>i. Num (real i)) [0..<n])
                  = map (\<lambda>i. (Num c, Num (real i))) [0..<n]"
      unfolding cs by (simp add: zip_map_map zip_same_conv_map)
    have xy: "foldl (\<lambda>sum (xv, v). jadd sum (jmul xv v)) (Num 0)
                (zip (map (\<lambda>i. Num (real i)) [0..<n]) (constant_series n c)) = Num (S1 * c)"
    proof -
      have "foldl (\<lambda>s i. jadd s (jmul (Num (real i)) (Num c))) (Num 0) [0..<n]
              = Num (0 + sum_list (map (\<lambda>i. real i * c) [0..<n]))"
        by (rule foldl_jadd_Num) simp
      moreover have "sum_list (map (\<lambda>i. real i * c) [0..<n]) = S1 * c"
        using sum_list_index[of n]
        by (simp add: sum_list_mult_const S1_def N_def)
      ultimately show ?thesis by (simp add: zip1 foldl_map)
    qed
    have x2: "foldl (\<lambda>sum xv. jadd sum (jmul xv xv)) (Num 0) (map (\<lambda>i. Num (real i)) [0..<n])
                = Num S2"
    proof -
      have "foldl (\<lambda>s i. jadd s (jmul (Num (real i)) (Num (real i)))) (Num 0) [0..<n]
              = Num (0 + sum_list (map (\<lambda>i. real i * real i) [0..<n]))"
        by (rule foldl_jadd_Num) simp
      then show ?thesis by (simp add: foldl_map sum_list_index_square S2_def N_def)
    qed
    have D: "N * S2 - S1 * S1 = N * N * (N - 1) * (N + 1) / 12"
      by (simp add: S1_def S2_def field_simps power2_eq_square)
    have Dpos: "N * S2 - S1 * S1 \<noteq> 0" unfolding D using n2 by simp
    have slope: "jdiv (jsub (jmul (Num N) (Num (S1 * c))) (jmul (Num S1) (Num (N * c))))
                      (jsub (jmul (Num N) (Num S2)) (jmul (Num S1) (Num S1))) = Num 0"
      using Dpos by (simp add: algebra_simps)
    have intercept: "jdiv (jsub (Num (N * c)) (jmul (Num 0) (Num S1))) (Num N) = Num c"
      using n2 by simp
    have ymean: "jdiv (Num (N * c)) (Num N) = Num c" using n2 by simp
    have ssRes: "foldl (\<lambda>sum (v, xv).
                     jadd sum (jpow2 (jsub v (jadd (jmul (Num 0) xv) (Num c)))))
                   (Num 0) (zip (constant_series n c) (map (\<lambda>i. Num (real i)) [0..<n])) = Num 0"
    proof -
      have "foldl (\<lambda>s i. jadd s (jpow2 (jsub (Num c)
                    (jadd (jmul (Num 0) (Num (real i))) (Num c)))))
              (Num 0) [0..<n] = Num (0 + sum_list (map (\<lambda>i. 0) [0..<n]))"
        by (rule foldl_jadd_Num) simp
      then show ?thesis by (simp add: zip2 foldl_map)
    qed
    have ssTot: "foldl (\<lambda>sum v. jadd sum (jpow2 (jsub v (Num c)))) (Num 0)
                   (constant_series n c) = Num 0"
    proof -
      have "foldl (\<lambda>s p. jadd s (jpow2 (jsub p (Num c)))) (Num 0) (replicate n (Num c))
              = Num (0 + real n * 0)"
        by (rule foldl_jadd_replicate) simp
      then show ?thesis by (simp add: constant_series_def)
    qed
    show ?thesis
      unfolding checkLinearity_def Let_def len xs ys xy x2 N_def[symmetric] slope intercept
        ymean ssRes ssTot
      by (simp add: jsub_def)
  qed
qed

text \<open>The variance of the multi-signal analyzer, which guards the empty series, is zero
  on every constant series, calibrated by any multiplier: the variance check of
  \<open>analyzePressurePattern\<close> (at least 0.01) gives no credit.\<close>

lemma calculateVariance_constant:
  "calculateVariance (map (\<lambda>p. jmul p (Num m)) (constant_series n c)) = Num 0"
proof (cases "n = 0")
  case True
  then show ?thesis by (simp add: calculateVariance_def constant_series_def)
next
  case False
  have "jsum (map (\<lambda>v. jpow2 (jsub v (Num (c * m)))) (replicate n (Num (c * m)))) = Num 0"
    using jsum_replicate[of n 0] by (simp add: map_replicate)
  then show ?thesis using False
    by (simp add: calculateVariance_def constant_series_def map_replicate jsum_replicate Let_def)
qed

text \<open>Equal timestamps give intervals that are all zero, and the timing score is
  \<open>Math.min(0.9, NaN)\<close>.\<close>

lemma analyzeTimingPatterns_equal:
  "2 \<le> n \<Longrightarrow> analyzeTimingPatterns (replicate n (Num t)) = NaN"
  using coefficientOfVariation_constant[of "n - 1" 0]
  by (simp add: analyzeTimingPatterns_def adjacent_replicate constant_series_def Let_def)

lemma equal_timestamps_give_NaN_confidence:
  assumes "minSamples th \<le> int (length samples)" and "2 \<le> length samples"
    and "map timestamp samples = replicate (length samples) (Num t)"
    and "ctype challenge = ''pressure_pattern''"
  shows "analyze th samples challenge
           = \<lparr>ar_isHuman = False, ar_confidence = NaN, ar_reason = None\<rparr>"
proof -
  have timing: "analyzeTimingPatterns (map timestamp samples) = NaN"
    using assms(2,3) analyzeTimingPatterns_equal by metis
  have "calculateOverallConfidence (analyzeByType th samples challenge) = NaN"
    using assms(4)
    by (simp add: calculateOverallConfidence_def analyzeByType_def analyzePressurePattern_def
        Let_def timing jsum_NaN)
  then show ?thesis using assms(1,2)
    by (auto simp add: analyze_def Let_def)
qed

section \<open>Claims about the single-series analyzer\<close>

text \<open>
  Claim C1 (confidence in \<open>[0, 1]\<close>, and \<open>isHuman\<close> exactly \<open>confidence >= threshold\<close>).
  The single-series analyzer breaks the range on a series it analyses: fifty samples that
  share one timestamp, under the \<open>pressure_pattern\<close> type and the default thresholds.
  All intervals are zero, the coefficient of variation of the intervals is \<open>0 / 0\<close>, the
  timing score is \<open>Math.min(0.9, NaN)\<close>, and the returned confidence is \<open>NaN\<close>, which
  is not in \<open>[0, 1]\<close>.
\<close>

theorem analyze_equal_timestamps_confidence_NaN:
  "analyze default_thresholds (replicate 50 (sample 0 0.5))
     \<lparr>ctype = ''pressure_pattern'', cdifficulty = ''medium''\<rparr>
     = \<lparr>ar_isHuman = False, ar_confidence = NaN, ar_reason = None\<rparr>
   \<and> \<not> in_unit_interval (ar_confidence (analyze default_thresholds (replicate 50 (sample 0 0.5))
     \<lparr>ctype = ''pressure_pattern'', cdifficulty = ''medium''\<rparr>))"
proof -
  have "analyze default_thresholds (replicate 50 (sample 0 0.5))
     \<lparr>ctype = ''pressure_pattern'', cdifficulty = ''medium''\<rparr>
     = \<lparr>ar_isHuman = False, ar_confidence = NaN, ar_reason = None\<rparr>"
    by (rule equal_timestamps_give_NaN_confidence[where t = 0])
       (simp_all add: default_thresholds_def sample_def)
  then show ?thesis by simp
qed

text \<open>
  Claim C7 (the statistics helpers return a neutral score, never \<open>NaN\<close>, on short inputs
  and on numeric edge cases). \<open>calculateStatistics\<close> returns \<open>NaN\<close> for the mean and the
  coefficient of variation of the empty series and for the coefficient of variation of a
  series of zeros (\<open>stdDev / mean\<close> has no guard), and \<open>checkLinearity\<close> returns \<open>NaN\<close>
  on the empty series, on one value and on a constant series (in exact arithmetic on
  every constant series: \<open>checkLinearity_constant\<close>).
\<close>

theorem statistics_helpers_yield_NaN:
  "mean (calculateStatistics []) = NaN
   \<and> coefficientOfVariation (calculateStatistics []) = NaN
   \<and> coefficientOfVariation (calculateStatistics [Num 0, Num 0]) = NaN
   \<and> checkLinearity [] = NaN
   \<and> checkLinearity [Num 0.5] = NaN
   \<and> checkLinearity [Num 0.5, Num 0.5, Num 0.5] = NaN"
proof -
  have a: "mean (calculateStatistics []) = NaN"
    "coefficientOfVariation (calculateStatistics []) = NaN"
    by (simp_all add: calculateStatistics_def jsum_def Let_def)
  have b: "coefficientOfVariation (calculateStatistics [Num 0, Num 0]) = NaN"
    by (simp add: calculateStatistics_def jsum_def Let_def)
  have c: "checkLinearity [] = NaN" "checkLinearity [Num 0.5] = NaN"
    by (simp_all add: checkLinearity_def jsum_def jsub_def jpow2_def Let_def)
  have d: "checkLinearity [Num 0.5, Num 0.5, Num 0.5] = NaN"
    by (simp add: checkLinearity_def jsum_def jsub_def Let_def upt_rec numeral_3_eq_3)
  show ?thesis using a b c d by simp
qed

text \<open>
  Claim C8 (a constant pressure series has its variance score at the low bound, whatever
  the challenge type). A non-zero constant does: \<open>analyzeVariance_constant\<close> and
  \<open>analyzeStability_constant\<close> give 0.2 and 0.3. Fifty samples of pressure 0 do not:
  the coefficient of variation is \<open>NaN\<close>, every comparison fails, and the variance score
  of \<open>pressure_pattern\<close> is 0.6 and the stability score of \<open>sustained_pressure\<close> is 0.8.
\<close>

theorem constant_zero_series_variance_score:
  "score_of (scores (analyzeByType default_thresholds
       (map (\<lambda>i. sample (real i * 100) 0) [0..<50])
       \<lparr>ctype = ''pressure_pattern'', cdifficulty = ''medium''\<rparr>)) ''variance'' = Num 0.6
   \<and> score_of (scores (analyzeByType default_thresholds
       (map (\<lambda>i. sample (real i * 100) 0) [0..<50])
       \<lparr>ctype = ''sustained_pressure'', cdifficulty = ''medium''\<rparr>)) ''stability'' = Num 0.8"
proof -
  have p: "map (pressure \<circ> (\<lambda>i. sample (real i * 100) 0)) [0..<50] = constant_series 50 0"
    by (simp add: sample_def constant_series_def comp_def map_replicate_const)
  show ?thesis
    by (simp add: analyzeByType_def analyzePressurePattern_def analyzeSustainedPressure_def
        Let_def score_of_def p analyzeVariance_constant analyzeStability_constant)
qed

text \<open>The regression of the linear ramp is exact: \<open>R\<^sup>2 = 1\<close>.\<close>

lemma checkLinearity_linear_ramp:
  assumes "2 \<le> n"
  shows "checkLinearity (linear_ramp n) = Num 1"
proof -
  define N where "N = real n"
  define S1 where "S1 = N * (N - 1) / 2"
  define S2 where "S2 = (N - 1) * N * (2 * N - 1) / 6"
  define T where "T = sum_list (map (\<lambda>i. (real i / N - S1 / N / N) * (real i / N - S1 / N / N)) [0..<n])"
  have n2: "2 \<le> N" using assms by (simp add: N_def)
  have len: "length (linear_ramp n) = n" by (simp add: linear_ramp_def)
  have xs: "jsum (map (\<lambda>i. Num (real i)) [0..<n]) = Num S1"
    by (simp add: jsum_map_Num sum_list_index S1_def N_def)
  have ys: "jsum (linear_ramp n) = Num (S1 / N)"
    unfolding linear_ramp_def jsum_map_Num N_def[symmetric]
    by (simp add: sum_list_divide sum_list_index S1_def N_def)
  have zip1: "zip (map (\<lambda>i. Num (real i)) [0..<n]) (linear_ramp n)
                = map (\<lambda>i. (Num (real i), Num (real i / N))) [0..<n]"
    by (simp add: linear_ramp_def zip_map_map zip_same_conv_map N_def)
  have zip2: "zip (linear_ramp n) (map (\<lambda>i. Num (real i)) [0..<n])
                = map (\<lambda>i. (Num (real i / N), Num (real i))) [0..<n]"
    by (simp add: linear_ramp_def zip_map_map zip_same_conv_map N_def)
  have xy: "foldl (\<lambda>sum (xv, v). jadd sum (jmul xv v)) (Num 0)
              (zip (map (\<lambda>i. Num (real i)) [0..<n]) (linear_ramp n)) = Num (S2 / N)"
  proof -
    have "foldl (\<lambda>s i. jadd s (jmul (Num (real i)) (Num (real i / N)))) (Num 0) [0..<n]
            = Num (0 + sum_list (map (\<lambda>i. real i * real i / N) [0..<n]))"
      by (rule foldl_jadd_Num) simp
    then show ?thesis
      by (simp add: zip1 foldl_map sum_list_divide sum_list_index_square S2_def N_def)
  qed
  have x2: "foldl (\<lambda>sum xv. jadd sum (jmul xv xv)) (Num 0) (map (\<lambda>i. Num (real i)) [0..<n])
              = Num S2"
  proof -
    have "foldl (\<lambda>s i. jadd s (jmul (Num (real i)) (Num (real i)))) (Num 0) [0..<n]
            = Num (0 + sum_list (map (\<lambda>i. real i * real i) [0..<n]))"
      by (rule foldl_jadd_Num) simp
    then show ?thesis by (simp add: foldl_map sum_list_index_square S2_def N_def)
  qed
  have D: "N * S2 - S1 * S1 = N * N * (N - 1) * (N + 1) / 12"
    by (simp add: S1_def S2_def field_simps power2_eq_square)
  have Dpos: "N * S2 - S1 * S1 \<noteq> 0" unfolding D using n2 by simp
  have slope: "jdiv (jsub (jmul (Num N) (Num (S2 / N))) (jmul (Num S1) (Num (S1 / N))))
                    (jsub (jmul (Num N) (Num S2)) (jmul (Num S1) (Num S1))) = Num (1 / N)"
  proof -
    have "N * (S2 / N) - S1 * (S1 / N) = (N * S2 - S1 * S1) / N"
      using n2 by (simp add: field_simps)
    then show ?thesis using Dpos n2 by simp
  qed
  have intercept: "jdiv (jsub (Num (S1 / N)) (jmul (Num (1 / N)) (Num S1))) (Num N) = Num 0"
    using n2 by simp
  have ymean: "jdiv (Num (S1 / N)) (Num N) = Num (S1 / N / N)" using n2 by simp
  have ssRes: "foldl (\<lambda>sum (v, xv).
                   jadd sum (jpow2 (jsub v (jadd (jmul (Num (1 / N)) xv) (Num 0)))))
                 (Num 0) (zip (linear_ramp n) (map (\<lambda>i. Num (real i)) [0..<n])) = Num 0"
  proof -
    have "foldl (\<lambda>s i. jadd s (jpow2 (jsub (Num (real i / N))
                  (jadd (jmul (Num (1 / N)) (Num (real i))) (Num 0)))))
            (Num 0) [0..<n] = Num (0 + sum_list (map (\<lambda>i. 0) [0..<n]))"
      by (rule foldl_jadd_Num) simp
    then show ?thesis by (simp add: zip2 foldl_map)
  qed
  have ssTot: "foldl (\<lambda>sum v. jadd sum (jpow2 (jsub v (Num (S1 / N / N))))) (Num 0)
                 (linear_ramp n) = Num T"
  proof -
    have "foldl (\<lambda>s i. jadd s (jpow2 (jsub (Num (real i / N)) (Num (S1 / N / N)))))
            (Num 0) [0..<n] = Num (0 + T)"
      unfolding T_def by (rule foldl_jadd_Num) simp
    then show ?thesis by (simp add: linear_ramp_def foldl_map N_def)
  qed
  have Tpos: "0 < T"
    unfolding T_def
  proof (rule sum_list_positive[where y = 0])
    show "0 \<in> set [0..<n]" using assms by simp
    show "0 < (real 0 / N - S1 / N / N) * (real 0 / N - S1 / N / N)"
      using n2 by (simp add: S1_def)
  qed simp
  show ?thesis
    unfolding checkLinearity_def Let_def len xs ys xy x2 N_def[symmetric] slope intercept
      ymean ssRes ssTot
    using Tpos by simp
qed

lemma distinct_linear_ramp: "distinct (linear_ramp n)"
proof -
  have "inj_on (\<lambda>i. Num (real i / real n)) (set [0..<n])"
    by (rule inj_onI) auto
  then show ?thesis by (simp add: linear_ramp_def distinct_map)
qed

lemma analyzeNaturalness_product:
  "analyzeNaturalness ps =
     jmax2 (Num 0.1)
       (Num ((if jlt (jdiv (Num (real (length (remdups ps)))) (Num (real (length ps)))) (Num 0.7)
              then 0.5 else 1)
             * (if jgt (checkLinearity ps) (Num 0.9) then 0.4 else 1)))"
  by (simp add: analyzeNaturalness_def Let_def)

text \<open>
  Claim C9. For a linear ramp \<open>pressure[i] = i / n\<close> of at least two samples, analysed
  as \<open>pressure_pattern\<close>, the regression \<open>R\<^sup>2\<close> exceeds 0.9 and the naturalness score is
  the penalised 0.4. For every series the naturalness score is the product of the
  repeated-values factor (0.5 when fewer than 70 percent of the values are distinct) and
  the linearity factor (0.4 when \<open>R\<^sup>2 > 0.9\<close>), floored at 0.1.
\<close>

theorem linear_ramp_naturalness_penalized:
  assumes "2 \<le> n" and "map pressure samples = linear_ramp n"
  shows "jgt (checkLinearity (map pressure samples)) (Num 0.9)
    \<and> score_of (scores (analyzeByType th samples
          \<lparr>ctype = ''pressure_pattern'', cdifficulty = difficulty\<rparr>)) ''naturalness'' = Num 0.4
    \<and> analyzeNaturalness ps =
        jmax2 (Num 0.1)
          (Num ((if jlt (jdiv (Num (real (length (remdups ps)))) (Num (real (length ps))))
                      (Num 0.7)
                 then 0.5 else 1)
                * (if jgt (checkLinearity ps) (Num 0.9) then 0.4 else 1)))"
proof -
  have lin: "checkLinearity (linear_ramp n) = Num 1"
    using assms(1) by (rule checkLinearity_linear_ramp)
  have len: "length (linear_ramp n) = n" by (simp add: linear_ramp_def)
  have nat: "analyzeNaturalness (linear_ramp n) = Num 0.4"
    using assms(1)
    by (simp add: analyzeNaturalness_product lin distinct_remdups_id[OF distinct_linear_ramp] len)
  have "score_of (scores (analyzeByType th samples
          \<lparr>ctype = ''pressure_pattern'', cdifficulty = difficulty\<rparr>)) ''naturalness''
        = analyzeNaturalness (map pressure samples)"
    by (simp add: analyzeByType_def analyzePressurePattern_def Let_def score_of_def)
  then show ?thesis
    using lin nat analyzeNaturalness_product[of ps] by (simp add: assms(2))
qed

theorem linear_ramp_naturalness_penalized_witness:
  "jgt (checkLinearity (map pressure (map (\<lambda>i. sample (real i * 100) (real i / 5)) [0..<5])))
     (Num 0.9)
   \<and> score_of (scores (analyzeByType default_thresholds
         (map (\<lambda>i. sample (real i * 100) (real i / 5)) [0..<5])
         \<lparr>ctype = ''pressure_pattern'', cdifficulty = ''medium''\<rparr>)) ''naturalness'' = Num 0.4
   \<and> analyzeNaturalness [Num 1, Num 1, Num 1] = Num 0.5"
proof -
  have ramp: "map pressure (map (\<lambda>i. sample (real i * 100) (real i / 5)) [0..<5]) = linear_ramp 5"
    by (simp add: sample_def linear_ramp_def)
  have lin: "checkLinearity [Num 1, Num 1, Num 1] = NaN"
    by (simp add: checkLinearity_def jsum_def jsub_def Let_def upt_rec numeral_3_eq_3)
  have "(2::nat) \<le> 5" by simp
  from linear_ramp_naturalness_penalized[OF this ramp,
      of default_thresholds "''medium''" "[Num 1, Num 1, Num 1]"]
  show ?thesis by (simp add: lin)
qed

section \<open>The scores of the multi-signal analyzer\<close>















section \<open>The lifecycle services\<close>





text \<open>A submission is accepted only for a challenge that \<open>getChallenge\<close> returns as
  pending and not expired.\<close>

lemma submitVerification_accepts_only_pending:
  assumes "submitVerification cfg an now vid body key st = (Inr v, st')"
  shows "\<exists>ch st1. getChallenge now (b_challengeId body) st = (Some ch, st1)
           \<and> c_status ch = ''pending'' \<and> \<not> now_after now (c_expiresAt ch)"
  using assms
  by (cases "getChallenge now (b_challengeId body) st")
     (auto simp add: submitVerification_def Let_def split: option.splits if_splits)

text \<open>A token signed with another key is answered with \<open>{valid: false}\<close>.\<close>

lemma validateToken_wrong_signature:
  assumes "jwtSecret cfg = Some secret" and "jwt_signed_with tok \<noteq> secret"
  shows "fst (validateToken cfg now tok st) = [(''valid'', VBool False)]"
  using assms by (simp add: validateToken_def jwt_verify_def)

text \<open>A cached challenge has its expiry time as a string. When \<open>getChallenge\<close> answers
  from the cache, \<open>updateChallengeStatus\<close> finds no positive time-to-live and leaves the
  cache as it is; so a submission that reads a pending challenge from the cache is
  accepted and leaves the pending copy in the cache.\<close>

lemma json_challenge_expiresAt: "\<exists>e. c_expiresAt (json_challenge c) = IsoString e"
  by (cases "c_expiresAt c") (simp_all add: json_challenge_def json_date_def)

lemma updateChallengeStatus_stale_cache:
  assumes "redis_get (challenge_cache st) now cid = Some ch"
    and "c_expiresAt ch = IsoString e"
  shows "challenge_cache (updateChallengeStatus now cid status st) = challenge_cache st"
  using assms
  by (simp add: updateChallengeStatus_def getChallenge_def ttl_seconds_def ttl_positive_def
      Let_def)

lemma submitVerification_stale_cache_accepts:
  assumes "redis_get (challenge_cache st) now (b_challengeId body) = Some ch"
    and "c_status ch = ''pending''" and "c_expiresAt ch = IsoString e"
    and "jwtSecret cfg = Some secret" and "b_pressureData body = Some p"
  shows "\<exists>v st'. submitVerification cfg an now vid body key st = (Inr v, st')
           \<and> challenge_cache st' = challenge_cache st"
  using assms
  by (simp add: submitVerification_def getChallenge_def now_after_def
      generateVerificationToken_def updateChallengeStatus_stale_cache Let_def)


lemmas lifecycle_defs = createChallenge_def getChallenge_def updateChallengeStatus_def
  submitVerification_def generateVerificationToken_def redis_get_def redis_setEx_def
  now_after_def ttl_seconds_def ttl_positive_def json_challenge_def json_date_def
  challengeTypes_def empty_state_def

lemma scenario_state_eq:
  "challengeExpiryMinutes cfg = 5 \<Longrightarrow> scenario_state cfg =
     \<lparr>db_challenges =
        [\<lparr>c_id = ''c1'', c_type = ''pressure_pattern'', c_difficulty = ''medium'',
          c_duration = Num 5, c_status = ''pending'', c_apiKeyId = ''key1'',
          c_createdAt = DateObj 0, c_expiresAt = DateObj 300000\<rparr>],
      db_verifications = [], db_pressure_data = [],
      challenge_cache = (\<lambda>_. None)(''c1'' :=
        Some (\<lparr>c_id = ''c1'', c_type = ''pressure_pattern'', c_difficulty = ''medium'',
               c_duration = Num 5, c_status = ''pending'', c_apiKeyId = ''key1'',
               c_createdAt = IsoString 0, c_expiresAt = IsoString 300000\<rparr>, 300000)),
      verification_cache = (\<lambda>_. None)\<rparr>"
  by (simp add: scenario_state_def lifecycle_defs Let_def)


lemma schema_method_not_inherited:
  "m \<in> set valid_detection_methods \<Longrightarrow> m \<notin> set object_prototype_members"
  by (auto simp add: valid_detection_methods_def object_prototype_members_def)

lemma schema_accepts_only_listed_methods:
  assumes "submitVerificationSchema uuid body = []"
  shows "optional (\<lambda>m. m \<notin> set object_prototype_members) (b_detectionMethod body)"
proof -
  have "optional (\<lambda>m. m \<in> set valid_detection_methods) (b_detectionMethod body)"
    using assms by (simp add: submitVerificationSchema_def split: if_splits)
  then show ?thesis
    by (cases "b_detectionMethod body") (simp_all add: optional_def schema_method_not_inherited)
qed


section \<open>Claims about the multi-signal analyzer and the lifecycle\<close>

text \<open>
  Claim C2. A submission whose pressure series has fewer than 5 or more than 10000
  samples is answered by the validation middleware with \<open>Validation failed\<close>: the service
  is not called, the state is unchanged and no score is returned.
\<close>

theorem submit_route_rejects_short_or_long:
  assumes "b_pressureData body = Some p" and "length p < 5 \<or> 10000 < length p"
  shows "submit_route uuid cfg an now verificationId apiKeyId body st
           = (ValidationFailed (submitVerificationSchema uuid body), st)"
proof -
  have "submitVerificationSchema uuid body \<noteq> []"
    using assms by (auto simp add: submitVerificationSchema_def)
  then show ?thesis
    by (simp add: submit_route_def validateRequest_def Let_def)
qed

theorem submit_route_rejects_short_or_long_witness:
  "submit_route (\<lambda>_. True) (default_config ''secret'') HumanPatternAnalyzer 1000 ''v1'' ''key1''
     (scenario_body\<lparr>b_pressureData := Some (replicate 4 (sample 0 0.5))\<rparr>)
     (scenario_state (default_config ''secret''))
   = (ValidationFailed [''pressureData''], scenario_state (default_config ''secret''))
   \<and> fst (submit_route (\<lambda>_. True) (default_config ''secret'') HumanPatternAnalyzer 1000 ''v1''
        ''key1'' (scenario_body\<lparr>b_pressureData := Some (replicate 10001 (sample 0 0.5))\<rparr>)
        (scenario_state (default_config ''secret'')))
     = ValidationFailed [''pressureData'']"
proof -
  have item: "pressure_item_ok (sample 0 (1 / 2))"
    by (simp add: pressure_item_ok_def sample_def number_range_def optional_def
        MAX_SAFE_INTEGER_def)
  have short: "submitVerificationSchema (\<lambda>_. True)
          (scenario_body\<lparr>b_pressureData := Some (replicate 4 (sample 0 0.5))\<rparr>) = [''pressureData'']"
    by (simp add: submitVerificationSchema_def scenario_body_def optional_def item
        list_all_iff)
  have long: "submitVerificationSchema (\<lambda>_. True)
          (scenario_body\<lparr>b_pressureData := Some (replicate 10001 (sample 0 0.5))\<rparr>) = [''pressureData'']"
    by (simp add: submitVerificationSchema_def scenario_body_def optional_def item
        list_all_iff)
  have a: "b_pressureData (scenario_body\<lparr>b_pressureData := Some (replicate 4 (sample 0 0.5))\<rparr>)
             = Some (replicate 4 (sample 0 0.5))" by simp
  have b: "b_pressureData (scenario_body\<lparr>b_pressureData := Some (replicate 10001 (sample 0 0.5))\<rparr>)
             = Some (replicate 10001 (sample 0 0.5))" by simp
  have la: "length (replicate 4 (sample 0 0.5)) < 5 \<or> 10000 < length (replicate 4 (sample 0 0.5))"
    by simp
  have lb: "length (replicate 10001 (sample 0 0.5)) < 5
              \<or> 10000 < length (replicate 10001 (sample 0 0.5))"
    by simp
  note r1 = submit_route_rejects_short_or_long[OF a la, of "\<lambda>_. True"
      "default_config ''secret''" HumanPatternAnalyzer 1000 "''v1''" "''key1''"
      "scenario_state (default_config ''secret'')", unfolded short]
  note r2 = submit_route_rejects_short_or_long[OF b lb, of "\<lambda>_. True"
      "default_config ''secret''" HumanPatternAnalyzer 1000 "''v1''" "''key1''"
      "scenario_state (default_config ''secret'')", unfolded long]
  show ?thesis
    unfolding r1 r2 by simp
qed

text \<open>
  Claim C3 (at most one verification per challenge; a second submission of the same
  challenge is rejected). The challenge \<open>c1\<close> is created at time 0, which caches it as
  pending, and is submitted at 1 s and again at 2 s. \<open>updateChallengeStatus\<close> updates
  the database row, but the cached copy holds \<open>expiresAt\<close> as a string, its remaining
  lifetime computes to \<open>NaN\<close>, and the cache keeps the pending copy
  (\<open>submitVerification_stale_cache_accepts\<close>). Both submissions are accepted and two
  completed verifications exist for the challenge.
\<close>

theorem double_submission_creates_two_verifications:
  "(case submitVerification (default_config ''secret'') HumanPatternAnalyzer 1000 ''v1''
           scenario_body ''key1'' (scenario_state (default_config ''secret'')) of
      (Inl err, st2) \<Rightarrow> False
    | (Inr v1, st2) \<Rightarrow>
        (case submitVerification (default_config ''secret'') HumanPatternAnalyzer 2000 ''v2''
                scenario_body ''key1'' st2 of
           (Inl err, st3) \<Rightarrow> False
         | (Inr v2, st3) \<Rightarrow>
             map v_id (filter (\<lambda>v. v_challengeId v = ''c1'') (db_verifications st3))
               = [''v1'', ''v2'']
             \<and> v_status v1 = ''completed'' \<and> v_status v2 = ''completed''
             \<and> map c_status (db_challenges st3) = [''completed'']))"
proof -
  have cfg: "challengeExpiryMinutes (default_config ''secret'') = 5"
    by (simp add: default_config_def)
  show ?thesis
    unfolding scenario_state_eq[OF cfg]
    by (simp add: lifecycle_defs default_config_def scenario_body_def verification_of_def
        verification_row_def Let_def)
qed

text \<open>
  Claim C4 (a token whose verification has expired is answered with \<open>valid = false\<close>).
  With verifications set to expire after 10 minutes, a verification is submitted at 1 s
  and expires at 601 s; it is cached for 30 minutes, with \<open>expiresAt\<close> as a string. At
  900 s the token's signature verifies, the cached verification is found, the comparison
  of the clock with the string is false, and the answer is \<open>valid = true\<close>.
\<close>

theorem expired_verification_token_still_valid:
  "(case submitVerification short_expiry_config HumanPatternAnalyzer 1000 ''v1''
           scenario_body ''key1'' (scenario_state short_expiry_config) of
      (Inl err, st2) \<Rightarrow> False
    | (Inr v, st2) \<Rightarrow>
        v_expiresAt v = DateObj 601000
        \<and> (case v_token v of
             None \<Rightarrow> False
           | Some tok \<Rightarrow>
               jwt_verify tok ''secret'' 900000 \<noteq> None
               \<and> map_of (fst (validateToken short_expiry_config 900000 tok st2)) ''valid''
                   = Some (VBool True)))"
proof -
  have cfg: "challengeExpiryMinutes short_expiry_config = 5"
    by (simp add: short_expiry_config_def default_config_def)
  show ?thesis
    unfolding scenario_state_eq[OF cfg]
    by (simp add: lifecycle_defs short_expiry_config_def default_config_def scenario_body_def
        verification_of_def verification_row_def validateToken_def getVerification_def
        jwt_verify_def jwt_sign_def json_verification_def Let_def)
qed




text \<open>
  Claim C6 (the result of \<open>validateToken\<close> contains the verification id). No result of
  \<open>validateToken\<close> has a \<open>verificationId\<close> property, and the route, which copies
  \<open>result.verificationId\<close> into its response, answers \<open>undefined\<close> for it.
\<close>

theorem validateToken_result_has_no_verificationId:
  "map_of (fst (validateToken cfg now tok st)) ''verificationId'' = None
   \<and> map_of (fst (validate_token_route cfg now tok st)) ''verificationId'' = Some None"
  by (simp add: validateToken_def validate_token_route_def split: option.splits prod.splits)

text \<open>
  Claim C10. \<open>analyzePattern\<close> is a function of the analyzer's tables and the
  verification data: two calls at different times return the same \<open>isHuman\<close> and the
  same \<open>confidence\<close>, and results that differ in the reported timestamp only.
\<close>

theorem analyzePattern_deterministic:
  "pr_isHuman (analyzePattern an now1 vd) = pr_isHuman (analyzePattern an now2 vd)
   \<and> pr_confidence (analyzePattern an now1 vd) = pr_confidence (analyzePattern an now2 vd)
   \<and> analyzePattern an now2 vd
       = (analyzePattern an now1 vd)\<lparr>pr_timestamp := pr_timestamp (analyzePattern an now2 vd)\<rparr>"
  by (simp add: analyzePattern_def Let_def split: option.splits)

end
